theory Spec2Isabelle
  imports Complex_Main
begin

section \<open>Strings\<close>

text \<open>
  A JavaScript string is modelled as a \<^typ>\<open>string\<close>, one \<^typ>\<open>char\<close> per UTF-16 code
  unit, so \<open>length\<close> is the \<open>.length\<close> of the source. A \<^typ>\<open>char\<close> has eight bits: the
  model covers texts of code units below 256 (Latin-1), and the character classes and
  the lower-casing below are those of JavaScript on that range.
\<close>

definition is_space :: "char \<Rightarrow> bool" where
  \<comment> \<open>the regular expression class \<open>\s\<close>: tab, line feed, vertical tab, form feed,
      carriage return, space, no-break space\<close>
  "is_space c =
     (c \<in> {CHR 0x09, CHR 0x0A, CHR 0x0B, CHR 0x0C, CHR 0x0D, CHR '' '', CHR 0xA0})"

definition is_word_char :: "char \<Rightarrow> bool" where
  \<comment> \<open>the regular expression class \<open>\w\<close>: \<open>[A-Za-z0-9_]\<close>\<close>
  "is_word_char c =
     (let n = (of_char c :: nat)
      in (48 \<le> n \<and> n \<le> 57) \<or> (65 \<le> n \<and> n \<le> 90) \<or> n = 95 \<or> (97 \<le> n \<and> n \<le> 122))"

definition is_digit :: "char \<Rightarrow> bool" where
  "is_digit c = (let n = (of_char c :: nat) in 48 \<le> n \<and> n \<le> 57)"

definition digit_val :: "char \<Rightarrow> nat" where
  "digit_val c = (of_char c :: nat) - 48"

definition is_upper :: "char \<Rightarrow> bool" where
  \<comment> \<open>the code units below 256 that \<open>toLowerCase\<close> changes: A-Z, and the Latin-1
      capitals 0xC0-0xDE without the multiplication sign 0xD7\<close>
  "is_upper c =
     (let n = (of_char c :: nat)
      in (65 \<le> n \<and> n \<le> 90) \<or> (192 \<le> n \<and> n \<le> 222 \<and> n \<noteq> 215))"

fun set_bit5 :: "char \<Rightarrow> char" where
  \<comment> \<open>adds 0x20 to a code unit whose bit 5 is clear\<close>
  "set_bit5 (Char b0 b1 b2 b3 b4 b5 b6 b7) = Char b0 b1 b2 b3 b4 True b6 b7"

definition toLowerCase :: "string \<Rightarrow> string" where
  "toLowerCase s = map (\<lambda>c. if is_upper c then set_bit5 c else c) s"

definition ascii_lower :: "string \<Rightarrow> string" where
  \<comment> \<open>ASCII case folding, as selectors use it for the values of some attributes\<close>
  "ascii_lower s =
     map (\<lambda>c. if 65 \<le> (of_char c :: nat) \<and> (of_char c :: nat) \<le> 90 then set_bit5 c else c) s"

definition startsWith :: "string \<Rightarrow> string \<Rightarrow> bool" where
  \<comment> \<open>\<open>s.startsWith(p)\<close>\<close>
  "startsWith s p = (take (length p) s = p)"

fun js_includes :: "string \<Rightarrow> string \<Rightarrow> bool" where
  \<comment> \<open>\<open>s.includes(p)\<close>: \<open>p\<close> occurs in \<open>s\<close> as a substring\<close>
  "js_includes [] p = (p = [])"
| "js_includes (c # cs) p = (startsWith (c # cs) p \<or> js_includes cs p)"

definition or_empty :: "string option \<Rightarrow> string" where
  \<comment> \<open>\<open>x || ''\<close> for \<open>x\<close> a string, \<open>null\<close> or \<open>undefined\<close>\<close>
  "or_empty x = (case x of None \<Rightarrow> [] | Some s \<Rightarrow> s)"

fun split_runs :: "(char \<Rightarrow> bool) \<Rightarrow> bool \<Rightarrow> string \<Rightarrow> string \<Rightarrow> string list" where
  \<comment> \<open>\<open>s.split(/[sep]+/)\<close>: the pieces between maximal runs of separators; \<open>in_run\<close> says
      that the previous character was a separator, \<open>cur\<close> is the piece being read. A run
      at the start or at the end leaves an empty piece there, as in JavaScript.\<close>
  "split_runs sep in_run cur [] = [cur]"
| "split_runs sep in_run cur (c # cs) =
     (if sep c then (if in_run then split_runs sep True [] cs
                     else cur # split_runs sep True [] cs)
      else split_runs sep False (cur @ [c]) cs)"

definition split_ws :: "string \<Rightarrow> string list" where
  \<comment> \<open>\<open>s.split(/\s+/)\<close>\<close>
  "split_ws s = split_runs is_space False [] s"

definition split_sentences :: "string \<Rightarrow> string list" where
  \<comment> \<open>\<open>s.split(/[.!?]+/)\<close>\<close>
  "split_sentences s = split_runs (\<lambda>c. c \<in> {CHR ''.'', CHR ''!'', CHR ''?''}) False [] s"

definition trim :: "string \<Rightarrow> string" where
  "trim s = rev (dropWhile is_space (rev (dropWhile is_space s)))"

section \<open>The parsed document\<close>

text \<open>
  \<open>DOMParser\<close> belongs to the platform. Its result is modelled by what the code reads from
  it: the elements of the tree in document order, each with its lower-case tag name, its
  attributes and its text content, and the text content of the body (\<open>None\<close> when the
  document has no body).
\<close>

record element =
  localName :: string
  attributes :: "(string \<times> string) list"
  textContent :: string

record document =
  elements :: "element list"
  body :: "string option"

definition getAttribute :: "element \<Rightarrow> string \<Rightarrow> string option" where
  "getAttribute e a = map_of (attributes e) a"

datatype selector =
    Sel_tag string                    \<comment> \<open>\<open>img\<close>\<close>
  | Sel_has string string             \<comment> \<open>\<open>img[alt]\<close>\<close>
  | Sel_eq string string string       \<comment> \<open>\<open>meta[name="description"]\<close>\<close>
  | Sel_prefix string string string   \<comment> \<open>\<open>meta[property^="og:"]\<close>\<close>
  | Sel_substr string string string   \<comment> \<open>\<open>script[src*="gtag"]\<close>\<close>

definition attr_value_eq :: "string \<Rightarrow> string \<Rightarrow> string \<Rightarrow> bool" where
  \<comment> \<open>In an HTML document the values of \<open>rel\<close> and \<open>type\<close> are compared ASCII
      case-insensitively by selectors, those of \<open>name\<close> and \<open>property\<close> exactly.\<close>
  "attr_value_eq a v lit =
     (if a = ''rel'' \<or> a = ''type'' then ascii_lower v = ascii_lower lit else v = lit)"

fun matches :: "selector \<Rightarrow> element \<Rightarrow> bool" where
  "matches (Sel_tag t) e = (localName e = t)"
| "matches (Sel_has t a) e = (localName e = t \<and> getAttribute e a \<noteq> None)"
| "matches (Sel_eq t a lit) e =
     (localName e = t \<and> (case getAttribute e a of None \<Rightarrow> False | Some v \<Rightarrow> attr_value_eq a v lit))"
| "matches (Sel_prefix t a lit) e =
     (localName e = t \<and> (case getAttribute e a of None \<Rightarrow> False | Some v \<Rightarrow> startsWith v lit))"
| "matches (Sel_substr t a lit) e =
     (localName e = t \<and> (case getAttribute e a of None \<Rightarrow> False | Some v \<Rightarrow> js_includes v lit))"

definition querySelectorAll :: "document \<Rightarrow> selector list \<Rightarrow> element list" where
  \<comment> \<open>the elements that match one selector of a comma-separated group, in document order\<close>
  "querySelectorAll doc sels = filter (\<lambda>e. list_ex (\<lambda>s. matches s e) sels) (elements doc)"

definition querySelector :: "document \<Rightarrow> selector list \<Rightarrow> element option" where
  "querySelector doc sels = (case querySelectorAll doc sels of [] \<Rightarrow> None | e # _ \<Rightarrow> Some e)"

definition text_of :: "element option \<Rightarrow> string" where
  \<comment> \<open>\<open>e?.textContent || ''\<close>\<close>
  "text_of x = (case x of None \<Rightarrow> [] | Some e \<Rightarrow> textContent e)"

definition attr_of :: "element option \<Rightarrow> string \<Rightarrow> string" where
  \<comment> \<open>\<open>e?.getAttribute(a) || ''\<close>\<close>
  "attr_of x a = (case x of None \<Rightarrow> [] | Some e \<Rightarrow> or_empty (getAttribute e a))"

definition bodyText :: "document \<Rightarrow> string" where
  \<comment> \<open>\<open>doc.body?.textContent || ''\<close>\<close>
  "bodyText doc = or_empty (body doc)"

section \<open>The platform\<close>

text \<open>
  \<open>Math.random\<close> is a global source of numbers in \<open>[0, 1)\<close>. It is modelled by explicit
  state: a tape of the numbers it will return and the position of the next one. Numbers
  are reals (or integers where the code only counts).
\<close>

record rng =
  tape :: "nat \<Rightarrow> real"
  pos :: nat

definition Math_random :: "rng \<Rightarrow> real \<times> rng" where
  "Math_random g = (tape g (pos g), g\<lparr>pos := Suc (pos g)\<rparr>)"

definition rng_ok :: "rng \<Rightarrow> bool" where
  \<comment> \<open>every number of the tape lies in \<open>[0, 1)\<close>, as \<open>Math.random\<close> promises\<close>
  "rng_ok g = (\<forall>i. 0 \<le> tape g i \<and> tape g i < 1)"

datatype js_error = TypeError | SyntaxError

text \<open>A value that \<open>JSON.parse\<close> returns. An object is the list of its own properties.\<close>

datatype json =
    JNull
  | JBool bool
  | JNum real
  | JStr string
  | JArr "json list"
  | JObj "(string \<times> json) list"

fun truthy :: "json \<Rightarrow> bool" where
  "truthy JNull = False"
| "truthy (JBool b) = b"
| "truthy (JNum n) = (n \<noteq> 0)"
| "truthy (JStr s) = (s \<noteq> [])"
| "truthy (JArr xs) = True"
| "truthy (JObj kvs) = True"

fun get_property :: "json \<Rightarrow> string \<Rightarrow> js_error + json option" where
  \<comment> \<open>\<open>data[key]\<close> for a key that no prototype has: a TypeError on \<open>null\<close>, \<open>undefined\<close>
      (here \<open>None\<close>) on a value without that own property\<close>
  "get_property JNull key = Inl TypeError"
| "get_property (JObj kvs) key = Inr (map_of kvs key)"
| "get_property v key = Inr None"

text \<open>
  The two platform functions whose results the code depends on are parameters of the
  model: \<open>URL_hostname u\<close> is \<open>new URL(u).hostname\<close>, \<open>None\<close> when the constructor throws
  its TypeError; \<open>JSON_parse s\<close> is \<open>JSON.parse(s)\<close>, \<open>None\<close> when it throws its SyntaxError.
\<close>

record platform =
  URL_hostname :: "string \<Rightarrow> string option"
  JSON_parse :: "string \<Rightarrow> json option"

section \<open>The records of the analysis\<close>

text \<open>
  The interfaces of the source, field by field. Where two interfaces share a field name,
  the less used one carries a prefix (\<open>og_\<close>, \<open>tw_\<close>) or the name of the local variable
  that the scorer uses (\<open>contentScore\<close>, \<open>accessibilityScore\<close>).
\<close>

record OpenGraphData =
  og_title :: string
  og_description :: string
  og_image :: string
  og_url :: string
  og_type :: string
  og_siteName :: string

record TwitterCardData =
  tw_card :: string
  tw_title :: string
  tw_description :: string
  tw_image :: string
  tw_site :: string

record StructuredDataAnalysis =
  hasSchema :: bool
  types :: "json list"
  errors :: "string list"

record HeadingsStructure =
  h1 :: "string list"
  h2 :: "string list"
  h3 :: "string list"
  h4 :: "string list"
  h5 :: "string list"
  h6 :: "string list"

record ImagesAnalysis =
  total :: int
  withAlt :: int
  withoutAlt :: int
  missingAlt :: "string list"
  oversized :: "string list"
  totalSize :: int

record LinksAnalysis =
  internal :: int
  external :: int
  broken :: int
  nofollow :: int
  dofollow :: int

record KeywordsAnalysis =
  density :: "(string \<times> real) list"
  suggestions :: "string list"
  primary :: "string list"
  secondary :: "string list"

record ContentAnalysis =
  wordCount :: int
  readabilityScore :: int
  duplicateContent :: bool
  languageDetected :: string

record MobileAnalysis =
  responsive :: bool
  viewportMeta :: bool
  touchFriendly :: bool

record AccessibilityAnalysis =
  altImages :: int
  headingStructure :: bool
  colorContrast :: bool

record SecurityAnalysis =
  https :: bool
  mixedContent :: bool

record SocialMediaAnalysis =
  hasOpenGraph :: bool
  hasTwitterCard :: bool
  hasFacebookPixel :: bool
  hasGoogleAnalytics :: bool

record TechnicalIssues =
  missingTitle :: bool
  missingMetaDescription :: bool
  duplicateH1 :: bool
  imagesMissingAlt :: bool
  titleTooLong :: bool
  metaDescriptionTooLong :: bool
  missingCanonical :: bool
  noIndex :: bool
  noFollow :: bool

record DetailedScores =
  technical :: int
  contentScore :: int
  performanceScore :: int
  accessibilityScore :: int
  social :: int

record PerformanceData =
  loadTime :: real
  pageSize :: real
  requests :: int

section \<open>The extractors\<close>

definition meta_content :: "document \<Rightarrow> string \<Rightarrow> string \<Rightarrow> string" where
  \<comment> \<open>\<open>doc.querySelector('meta[a="v"]')?.getAttribute('content') || ''\<close>\<close>
  "meta_content doc a v = attr_of (querySelector doc [Sel_eq ''meta'' a v]) ''content''"

definition extractOpenGraphData :: "document \<Rightarrow> OpenGraphData" where
  "extractOpenGraphData doc =
     \<lparr> og_title = meta_content doc ''property'' ''og:title'',
       og_description = meta_content doc ''property'' ''og:description'',
       og_image = meta_content doc ''property'' ''og:image'',
       og_url = meta_content doc ''property'' ''og:url'',
       og_type = meta_content doc ''property'' ''og:type'',
       og_siteName = meta_content doc ''property'' ''og:site_name'' \<rparr>"

definition extractTwitterCardData :: "document \<Rightarrow> TwitterCardData" where
  "extractTwitterCardData doc =
     \<lparr> tw_card = meta_content doc ''name'' ''twitter:card'',
       tw_title = meta_content doc ''name'' ''twitter:title'',
       tw_description = meta_content doc ''name'' ''twitter:description'',
       tw_image = meta_content doc ''name'' ''twitter:image'',
       tw_site = meta_content doc ''name'' ''twitter:site'' \<rparr>"

subsection \<open>Structured data\<close>

definition ld_json_scripts :: "document \<Rightarrow> element list" where
  "ld_json_scripts doc = querySelectorAll doc [Sel_eq ''script'' ''type'' ''application/ld+json'']"

definition invalid_json_ld :: string where
  "invalid_json_ld = ''Invalid JSON-LD structure''"

definition structured_step ::
  "platform \<Rightarrow> json list \<times> string list \<Rightarrow> element \<Rightarrow> json list \<times> string list" where
  \<comment> \<open>the body of the \<open>forEach\<close>: the \<open>try\<close> covers both \<open>JSON.parse\<close> and the read of
      \<open>data['@type']\<close>, and the \<open>catch\<close> pushes the message for either exception\<close>
  "structured_step P acc script =
     (case acc of (tys, errs) \<Rightarrow>
        (case JSON_parse P (textContent script) of
           None \<Rightarrow> (tys, errs @ [invalid_json_ld])
         | Some data \<Rightarrow>
             (case get_property data ''@type'' of
                Inl e \<Rightarrow> (tys, errs @ [invalid_json_ld])
              | Inr None \<Rightarrow> (tys, errs)
              | Inr (Some v) \<Rightarrow> if truthy v then (tys @ [v], errs) else (tys, errs))))"

definition extractStructuredData :: "platform \<Rightarrow> document \<Rightarrow> StructuredDataAnalysis" where
  "extractStructuredData P doc =
     (let scripts = ld_json_scripts doc;
          acc = foldl (structured_step P) ([], []) scripts
      in \<lparr> hasSchema = (length scripts > 0), types = fst acc, errors = snd acc \<rparr>)"

subsection \<open>Headings\<close>

definition heading_texts :: "document \<Rightarrow> string \<Rightarrow> string list" where
  \<comment> \<open>\<open>Array.from(doc.querySelectorAll(t)).map(h => h.textContent || '')\<close>\<close>
  "heading_texts doc t = map textContent (querySelectorAll doc [Sel_tag t])"

definition extractHeadings :: "document \<Rightarrow> HeadingsStructure" where
  "extractHeadings doc =
     \<lparr> h1 = heading_texts doc ''h1'', h2 = heading_texts doc ''h2'',
       h3 = heading_texts doc ''h3'', h4 = heading_texts doc ''h4'',
       h5 = heading_texts doc ''h5'', h6 = heading_texts doc ''h6'' \<rparr>"

subsection \<open>Images\<close>

definition falsy_attr :: "string option \<Rightarrow> bool" where
  \<comment> \<open>\<open>!e.getAttribute(a)\<close>: the attribute is absent (\<open>null\<close>) or the empty string\<close>
  "falsy_attr x = (case x of None \<Rightarrow> True | Some v \<Rightarrow> v = [])"

definition src_or_unknown :: "element \<Rightarrow> string" where
  \<comment> \<open>\<open>img.getAttribute('src') || 'Unknown image'\<close>\<close>
  "src_or_unknown img =
     (if falsy_attr (getAttribute img ''src'') then ''Unknown image''
      else or_empty (getAttribute img ''src''))"

definition images_step ::
  "string list \<times> string list \<times> rng \<Rightarrow> element \<Rightarrow> string list \<times> string list \<times> rng" where
  \<comment> \<open>the body of the \<open>forEach\<close> over all images\<close>
  "images_step acc img =
     (case acc of (missing, over, g) \<Rightarrow>
        (let missing' = (if falsy_attr (getAttribute img ''alt'')
                         then missing @ [src_or_unknown img] else missing);
             (r, g') = Math_random g;
             over' = (if r > 0.8 then over @ [src_or_unknown img] else over)
         in (missing', over', g')))"

definition analyzeImages :: "document \<Rightarrow> rng \<Rightarrow> ImagesAnalysis \<times> rng" where
  "analyzeImages doc g =
     (let allImages = querySelectorAll doc [Sel_tag ''img''];
          imagesWithAlt = querySelectorAll doc [Sel_has ''img'' ''alt''];
          (missing, over, g1) = foldl images_step ([], [], g) allImages;
          (r, g2) = Math_random g1
      in (\<lparr> total = int (length allImages),
             withAlt = int (length imagesWithAlt),
             withoutAlt = int (length allImages) - int (length imagesWithAlt),
             missingAlt = missing,
             oversized = over,
             totalSize = \<lfloor>r * 3000\<rfloor> + 500 \<rparr>, g2))"

subsection \<open>Links\<close>

definition page_hostname :: "platform \<Rightarrow> string \<Rightarrow> js_error + string" where
  \<comment> \<open>\<open>new URL(baseUrl).hostname\<close>\<close>
  "page_hostname P baseUrl =
     (case URL_hostname P baseUrl of None \<Rightarrow> Inl TypeError | Some h \<Rightarrow> Inr h)"

definition is_external :: "platform \<Rightarrow> string \<Rightarrow> string \<Rightarrow> js_error + bool" where
  \<comment> \<open>\<open>href.startsWith('http') && !href.includes(new URL(baseUrl).hostname)\<close>: the URL is
      built only when the left operand holds\<close>
  "is_external P baseUrl href =
     (if startsWith href ''http''
      then (case page_hostname P baseUrl of
              Inl e \<Rightarrow> Inl e
            | Inr h \<Rightarrow> Inr (\<not> js_includes href h))
      else Inr False)"

definition is_internal :: "platform \<Rightarrow> string \<Rightarrow> string \<Rightarrow> js_error + bool" where
  \<comment> \<open>\<open>href.startsWith('/') || href.includes(new URL(baseUrl).hostname)\<close>: the URL is
      built only when the left operand fails\<close>
  "is_internal P baseUrl href =
     (if startsWith href ''/'' then Inr True
      else (case page_hostname P baseUrl of
              Inl e \<Rightarrow> Inl e
            | Inr h \<Rightarrow> Inr (js_includes href h)))"

record link_counts =
  n_internal :: int
  n_external :: int
  n_nofollow :: int
  n_dofollow :: int

definition count_rel :: "element \<Rightarrow> link_counts \<Rightarrow> link_counts" where
  \<comment> \<open>the second \<open>if\<close> of the loop body\<close>
  "count_rel link c =
     (if js_includes (or_empty (getAttribute link ''rel'')) ''nofollow''
      then c\<lparr>n_nofollow := n_nofollow c + 1\<rparr>
      else c\<lparr>n_dofollow := n_dofollow c + 1\<rparr>)"

definition links_step :: "platform \<Rightarrow> string \<Rightarrow> link_counts \<Rightarrow> element \<Rightarrow> js_error + link_counts" where
  \<comment> \<open>the body of the \<open>forEach\<close> over the anchors with an \<open>href\<close>\<close>
  "links_step P baseUrl c link =
     (let href = or_empty (getAttribute link ''href'')
      in case is_external P baseUrl href of
           Inl e \<Rightarrow> Inl e
         | Inr True \<Rightarrow> Inr (count_rel link (c\<lparr>n_external := n_external c + 1\<rparr>))
         | Inr False \<Rightarrow>
             (case is_internal P baseUrl href of
                Inl e \<Rightarrow> Inl e
              | Inr True \<Rightarrow> Inr (count_rel link (c\<lparr>n_internal := n_internal c + 1\<rparr>))
              | Inr False \<Rightarrow> Inr (count_rel link c)))"

fun links_loop :: "platform \<Rightarrow> string \<Rightarrow> link_counts \<Rightarrow> element list \<Rightarrow> js_error + link_counts" where
  \<comment> \<open>the \<open>forEach\<close>: an exception of the body ends it\<close>
  "links_loop P baseUrl c [] = Inr c"
| "links_loop P baseUrl c (link # rest) =
     (case links_step P baseUrl c link of
        Inl e \<Rightarrow> Inl e
      | Inr c' \<Rightarrow> links_loop P baseUrl c' rest)"

definition analyzeLinks :: "platform \<Rightarrow> document \<Rightarrow> string \<Rightarrow> rng \<Rightarrow> js_error + LinksAnalysis \<times> rng" where
  "analyzeLinks P doc baseUrl g =
     (let allLinks = querySelectorAll doc [Sel_has ''a'' ''href'']
      in case links_loop P baseUrl
                \<lparr> n_internal = 0, n_external = 0, n_nofollow = 0, n_dofollow = 0 \<rparr> allLinks of
           Inl e \<Rightarrow> Inl e
         | Inr c \<Rightarrow>
             (let (r, g') = Math_random g
              in Inr (\<lparr> internal = n_internal c,
                        external = n_external c,
                        broken = \<lfloor>r * 2\<rfloor>,
                        nofollow = n_nofollow c,
                        dofollow = n_dofollow c \<rparr>, g')))"

subsection \<open>Keywords\<close>

text \<open>
  The two counting tables of \<open>analyzeKeywords\<close> are JavaScript objects, and
  \<open>Object.entries\<close> enumerates the own keys of an object in a fixed order: first the keys
  that are array indices (canonical decimal numerals below \<open>2^32 - 1\<close>) in ascending
  numeric order, then the other keys in the order of their creation. An object is
  modelled by the list of its entries in that order.

  The object literal \<open>{}\<close> inherits the properties \<open>constructor\<close> and \<open>__proto__\<close>: for a
  token of one of these two names \<open>wordCount[word]\<close> is not \<open>undefined\<close> at first and its
  count is not a number. The model reads every key without an entry as \<open>undefined\<close>, so
  the statement below about the ranking of the keywords leaves these two tokens out.
\<close>

type_synonym 'v js_object = "(string \<times> 'v) list"

definition index_value :: "string \<Rightarrow> nat" where
  "index_value k = foldl (\<lambda>n c. 10 * n + digit_val c) 0 k"

definition is_array_index :: "string \<Rightarrow> bool" where
  "is_array_index k =
     (k \<noteq> [] \<and> list_all is_digit k \<and> (k = ''0'' \<or> hd k \<noteq> CHR ''0'') \<and> index_value k < 4294967295)"

fun insert_index :: "string \<Rightarrow> 'v \<Rightarrow> 'v js_object \<Rightarrow> 'v js_object" where
  \<comment> \<open>a new array-index key goes before the first key that is not an array index or
      has a larger value (two different array indices never have the same value)\<close>
  "insert_index k v [] = [(k, v)]"
| "insert_index k v ((k', v') # kvs) =
     (if is_array_index k' \<and> index_value k' \<le> index_value k
      then (k', v') # insert_index k v kvs
      else (k, v) # (k', v') # kvs)"

definition obj_set :: "'v js_object \<Rightarrow> string \<Rightarrow> 'v \<Rightarrow> 'v js_object" where
  \<comment> \<open>\<open>obj[k] = v\<close>: an existing key keeps its place\<close>
  "obj_set obj k v =
     (case map_of obj k of
        Some old \<Rightarrow> map (\<lambda>(k', v'). if k' = k then (k', v) else (k', v')) obj
      | None \<Rightarrow> if is_array_index k then insert_index k v obj else obj @ [(k, v)])"

definition count_word :: "nat js_object \<Rightarrow> string \<Rightarrow> nat js_object" where
  \<comment> \<open>\<open>wordCount[word] = (wordCount[word] || 0) + 1\<close>\<close>
  "count_word obj word = obj_set obj word ((case map_of obj word of None \<Rightarrow> 0 | Some c \<Rightarrow> c) + 1)"

definition keyword_words :: "string \<Rightarrow> string list" where
  \<comment> \<open>the array \<open>words\<close>\<close>
  "keyword_words text =
     (let limitedText = take 5000 text
      in filter (\<lambda>word. length word > 3)
           (split_ws (filter (\<lambda>c. is_word_char c \<or> is_space c) (toLowerCase limitedText))))"

definition density_step :: "nat \<Rightarrow> real js_object \<Rightarrow> string \<times> nat \<Rightarrow> real js_object" where
  \<comment> \<open>\<open>density[word] = (count / totalWords) * 100\<close>\<close>
  "density_step totalWords d e = (case e of (word, count) \<Rightarrow>
     obj_set d word ((real count / real totalWords) * 100))"

definition analyzeKeywords :: "string \<Rightarrow> KeywordsAnalysis" where
  "analyzeKeywords text =
     (let words = keyword_words text;
          wordCount = foldl count_word [] words;
          totalWords = length words;
          dens = foldl (density_step totalWords) [] wordCount;
          topKeywords = map fst (take 15 (sort_key (\<lambda>(word, a). - a) dens))
      in \<lparr> density = dens,
           suggestions = topKeywords,
           primary = take 3 topKeywords,
           secondary = drop 3 (take 10 topKeywords) \<rparr>)"

subsection \<open>Content, mobile, accessibility, security, social media\<close>

definition analyzeContent :: "string \<Rightarrow> rng \<Rightarrow> ContentAnalysis \<times> rng" where
  "analyzeContent text g =
     (let words = filter (\<lambda>word. length word > 0) (split_ws text);
          sentences = filter (\<lambda>s. length (trim s) > 0) (split_sentences text);
          avgWordsPerSentence =
            (if length sentences > 0 then real (length words) / real (length sentences) else 0);
          readability = max 0 (min 100 (100 - avgWordsPerSentence * 2));
          (r, g') = Math_random g
      in (\<lparr> wordCount = int (length words),
             readabilityScore = round readability,
             duplicateContent = (r > 0.9),
             languageDetected = ''es'' \<rparr>, g'))"

definition analyzeMobile :: "document \<Rightarrow> rng \<Rightarrow> MobileAnalysis \<times> rng" where
  "analyzeMobile doc g =
     (let viewport = querySelector doc [Sel_eq ''meta'' ''name'' ''viewport''];
          (r, g') = Math_random g
      in (\<lparr> responsive = (viewport \<noteq> None),
             viewportMeta = (viewport \<noteq> None),
             touchFriendly = (r > 0.2) \<rparr>, g'))"

definition heading_level :: "element \<Rightarrow> int" where
  \<comment> \<open>\<open>parseInt(heading.tagName[1])\<close>: the tag name is the upper-case local name, whose
      second character is the digit of an element that the heading selector matched\<close>
  "heading_level heading =
     (case localName heading of [c, d] \<Rightarrow> int (digit_val d) | _ \<Rightarrow> 0)"

definition heading_step :: "bool \<times> int \<Rightarrow> element \<Rightarrow> bool \<times> int" where
  \<comment> \<open>the body of the \<open>forEach\<close> over the headings: the state is
      \<open>(properHeadingStructure, lastLevel)\<close>\<close>
  "heading_step acc heading =
     (case acc of (proper, lastLevel) \<Rightarrow>
        (let level = heading_level heading
         in (if level > lastLevel + 1 then False else proper, level)))"

definition all_headings :: "document \<Rightarrow> element list" where
  \<comment> \<open>\<open>doc.querySelectorAll('h1, h2, h3, h4, h5, h6')\<close>\<close>
  "all_headings doc =
     querySelectorAll doc [Sel_tag ''h1'', Sel_tag ''h2'', Sel_tag ''h3'',
                           Sel_tag ''h4'', Sel_tag ''h5'', Sel_tag ''h6'']"

definition analyzeAccessibility :: "document \<Rightarrow> ImagesAnalysis \<Rightarrow> rng \<Rightarrow> AccessibilityAnalysis \<times> rng" where
  "analyzeAccessibility doc images g =
     (let headings = all_headings doc;
          properHeadingStructure = fst (foldl heading_step (True, 0) headings);
          (r, g') = Math_random g
      in (\<lparr> altImages = withAlt images,
             headingStructure = properHeadingStructure,
             colorContrast = (r > 0.15) \<rparr>, g'))"

definition analyzeSecurity :: "string \<Rightarrow> rng \<Rightarrow> SecurityAnalysis \<times> rng" where
  "analyzeSecurity url g =
     (let (r, g') = Math_random g
      in (\<lparr> https = startsWith url ''https://'', mixedContent = (r > 0.9) \<rparr>, g'))"

definition analyzeSocialMedia :: "document \<Rightarrow> SocialMediaAnalysis" where
  "analyzeSocialMedia doc =
     \<lparr> hasOpenGraph = (querySelector doc [Sel_prefix ''meta'' ''property'' ''og:''] \<noteq> None),
       hasTwitterCard = (querySelector doc [Sel_prefix ''meta'' ''name'' ''twitter:''] \<noteq> None),
       hasFacebookPixel = (querySelector doc [Sel_substr ''script'' ''src'' ''facebook.net''] \<noteq> None),
       hasGoogleAnalytics =
         (querySelector doc [Sel_substr ''script'' ''src'' ''google-analytics.com'',
                             Sel_substr ''script'' ''src'' ''gtag''] \<noteq> None) \<rparr>"

section \<open>The issue checker\<close>

definition checkTechnicalIssues ::
  "document \<Rightarrow> string \<Rightarrow> string \<Rightarrow> HeadingsStructure \<Rightarrow> ImagesAnalysis \<Rightarrow> string \<Rightarrow> TechnicalIssues"
  where
  "checkTechnicalIssues doc title metaDescription headings images canonicalUrl =
     (let robotsMeta = meta_content doc ''name'' ''robots''
      in \<lparr> missingTitle = (title = []),
           missingMetaDescription = (metaDescription = []),
           duplicateH1 = (length (h1 headings) > 1),
           imagesMissingAlt = (withoutAlt images > 0),
           titleTooLong = (length title > 60),
           metaDescriptionTooLong = (length metaDescription > 160),
           missingCanonical = (canonicalUrl = []),
           noIndex = js_includes robotsMeta ''noindex'',
           noFollow = js_includes robotsMeta ''nofollow'' \<rparr>)"

section \<open>The scorer\<close>

definition minus_if :: "bool \<Rightarrow> int \<Rightarrow> int \<Rightarrow> int" where
  \<comment> \<open>\<open>if (b) score -= n\<close>\<close>
  "minus_if b n score = (if b then score - n else score)"

definition calculateDetailedScores ::
  "string \<Rightarrow> string \<Rightarrow> HeadingsStructure \<Rightarrow> ImagesAnalysis \<Rightarrow> TechnicalIssues \<Rightarrow> ContentAnalysis
   \<Rightarrow> LinksAnalysis \<Rightarrow> MobileAnalysis \<Rightarrow> AccessibilityAnalysis \<Rightarrow> SocialMediaAnalysis \<Rightarrow> rng
   \<Rightarrow> DetailedScores \<times> rng" where
  "calculateDetailedScores title metaDescription headings images issues content links mobile
       accessibility socialMedia g =
     (let tech = minus_if (metaDescriptionTooLong issues) 10
                  (minus_if (titleTooLong issues) 10
                  (minus_if (missingCanonical issues) 10
                  (minus_if (duplicateH1 issues) 15
                  (minus_if (missingMetaDescription issues) 20
                  (minus_if (missingTitle issues) 25 100)))));
          cont = minus_if (duplicateContent content) 25
                  (minus_if (length (h1 headings) = 0) 20
                  (minus_if (readabilityScore content < 60) 15
                  (minus_if (wordCount content < 300) 20 100)));
          (r, g') = Math_random g;
          perf = \<lfloor>r * 20\<rfloor> + 80;
          acc = minus_if (\<not> responsive mobile) 25
                 (minus_if (withoutAlt images > 0) (min (withoutAlt images * 5) 30)
                 (minus_if (\<not> colorContrast accessibility) 15
                 (minus_if (\<not> headingStructure accessibility) 20 100)));
          soc = minus_if (\<not> hasGoogleAnalytics socialMedia) 15
                 (minus_if (\<not> hasTwitterCard socialMedia) 20
                 (minus_if (\<not> hasOpenGraph socialMedia) 30 100))
      in (\<lparr> technical = max 0 tech,
             contentScore = max 0 cont,
             performanceScore = max 0 perf,
             accessibilityScore = max 0 acc,
             social = max 0 soc \<rparr>, g'))"

section \<open>The recommendations\<close>

text \<open>
  A recommendation is one of the fixed texts of the source, which carry pictographs and
  accented letters; each constructor stands for one text, named after the condition that
  pushes it, and \<open>Rec_imagesWithoutAlt n\<close> for the text into which the number \<open>n\<close> of
  images is interpolated. The last five are the texts of the sample report.
\<close>

datatype recommendation =
    Rec_missingTitle
  | Rec_missingMetaDescription
  | Rec_duplicateH1
  | Rec_missingCanonical
  | Rec_titleTooLong
  | Rec_metaDescriptionTooLong
  | Rec_wordCount
  | Rec_readability
  | Rec_duplicateContent
  | Rec_imagesWithoutAlt int
  | Rec_oversizedImages
  | Rec_internalLinks
  | Rec_linkBalance
  | Rec_performance
  | Rec_social
  | Rec_accessibility
  | Sample_missingAlt
  | Sample_loadTime
  | Sample_structure
  | Sample_density
  | Sample_optimized

definition line_if :: "bool \<Rightarrow> recommendation \<Rightarrow> recommendation list" where
  \<comment> \<open>\<open>if (b) recommendations.push(x)\<close>, as what the statement adds to the list\<close>
  "line_if b x = (if b then [x] else [])"

definition generateComprehensiveRecommendations ::
  "TechnicalIssues \<Rightarrow> DetailedScores \<Rightarrow> KeywordsAnalysis \<Rightarrow> ContentAnalysis \<Rightarrow> ImagesAnalysis
   \<Rightarrow> LinksAnalysis \<Rightarrow> recommendation list" where
  \<comment> \<open>the pushes in the order of the source, on an empty list\<close>
  "generateComprehensiveRecommendations issues scores kws content images links =
       line_if (missingTitle issues) Rec_missingTitle
     @ line_if (missingMetaDescription issues) Rec_missingMetaDescription
     @ line_if (duplicateH1 issues) Rec_duplicateH1
     @ line_if (missingCanonical issues) Rec_missingCanonical
     @ line_if (titleTooLong issues) Rec_titleTooLong
     @ line_if (metaDescriptionTooLong issues) Rec_metaDescriptionTooLong
     @ line_if (wordCount content < 300) Rec_wordCount
     @ line_if (readabilityScore content < 60) Rec_readability
     @ line_if (duplicateContent content) Rec_duplicateContent
     @ line_if (withoutAlt images > 0) (Rec_imagesWithoutAlt (withoutAlt images))
     @ line_if (length (oversized images) > 0) Rec_oversizedImages
     @ line_if (internal links < 3) Rec_internalLinks
     @ line_if (external links > internal links * 2) Rec_linkBalance
     @ line_if (performanceScore scores < 70) Rec_performance
     @ line_if (social scores < 70) Rec_social
     @ line_if (accessibilityScore scores < 70) Rec_accessibility"

section \<open>The report\<close>

text \<open>
  The report of the source without its optional \<open>competitorAnalysis\<close>, which the code
  never sets. The field \<open>keywords\<close> of the source is \<open>keywordsAnalysis\<close> here, \<open>keywords\<close> being a
  reserved word of Isabelle.
\<close>

record SEOAnalysis =
  url :: string
  title :: string
  metaDescription :: string
  metaKeywords :: string
  canonicalUrl :: string
  openGraph :: OpenGraphData
  twitterCard :: TwitterCardData
  structuredData :: StructuredDataAnalysis
  headings :: HeadingsStructure
  images :: ImagesAnalysis
  links :: LinksAnalysis
  performance :: PerformanceData
  mobile :: MobileAnalysis
  security :: SecurityAnalysis
  accessibility :: AccessibilityAnalysis
  keywordsAnalysis :: KeywordsAnalysis
  content :: ContentAnalysis
  technicalIssues :: TechnicalIssues
  socialMedia :: SocialMediaAnalysis
  score :: int
  scores :: DetailedScores
  recommendations :: "recommendation list"

definition mean_score :: "DetailedScores \<Rightarrow> int" where
  \<comment> \<open>\<open>Math.round((technical + content + performance + accessibility + social) / 5)\<close>;
      \<open>Math.round\<close> rounds a half up, as \<open>round\<close> does\<close>
  "mean_score s =
     round (real_of_int (technical s + contentScore s + performanceScore s
                          + accessibilityScore s + social s) / 5)"

definition parseHTML :: "platform \<Rightarrow> document \<Rightarrow> string \<Rightarrow> rng \<Rightarrow> js_error + SEOAnalysis" where
  \<comment> \<open>The elements of the array literal are evaluated from left to right, so the random
      numbers are drawn in that order; \<open>analyzeLinks\<close> is the one element that can throw.\<close>
  "parseHTML P doc page_url g =
     (let ttl = text_of (querySelector doc [Sel_tag ''title'']);
          descr = meta_content doc ''name'' ''description'';
          kws = meta_content doc ''name'' ''keywords'';
          canon = attr_of (querySelector doc [Sel_eq ''link'' ''rel'' ''canonical'']) ''href'';
          og = extractOpenGraphData doc;
          tw = extractTwitterCardData doc;
          sd = extractStructuredData P doc;
          hs = extractHeadings doc;
          (imgs, g1) = analyzeImages doc g
      in case analyzeLinks P doc page_url g1 of
           Inl e \<Rightarrow> Inl e
         | Inr (lks, g2) \<Rightarrow>
            (let kw = analyzeKeywords (bodyText doc);
                 (cont, g3) = analyzeContent (bodyText doc) g2;
                 (mob, g4) = analyzeMobile doc g3;
                 (imgs2, g5) = analyzeImages doc g4;
                 (acc, g6) = analyzeAccessibility doc imgs2 g5;
                 (sec, g7) = analyzeSecurity page_url g6;
                 soc = analyzeSocialMedia doc;
                 issues = checkTechnicalIssues doc ttl descr hs imgs canon;
                 (scs, g8) = calculateDetailedScores ttl descr hs imgs issues cont lks mob acc soc g7;
                 recs = generateComprehensiveRecommendations issues scs kw cont imgs lks;
                 (r1, g9) = Math_random g8;
                 (r2, g10) = Math_random g9;
                 (r3, g11) = Math_random g10
             in Inr \<lparr> url = page_url, title = ttl, metaDescription = descr, metaKeywords = kws,
                      canonicalUrl = canon, openGraph = og, twitterCard = tw,
                      structuredData = sd, headings = hs, images = imgs, links = lks,
                      performance = \<lparr> loadTime = r1 * 2 + 0.5, pageSize = r2 * 1500 + 300,
                                      requests = \<lfloor>r3 * 30\<rfloor> + 15 \<rparr>,
                      mobile = mob, security = sec, accessibility = acc, keywordsAnalysis = kw,
                      content = cont, technicalIssues = issues, socialMedia = soc,
                      score = mean_score scs, scores = scs, recommendations = recs \<rparr>))"

subsection \<open>The sample report and the cache\<close>

definition guia :: string where
  \<comment> \<open>the word Guia of the sample texts, whose i carries an acute accent: code unit 0xED\<close>
  "guia = ''Gu'' @ [CHR 0xED] @ ''a''"

definition tecnic :: "string \<Rightarrow> string" where
  \<comment> \<open>the stem Tecnic or tecnic, whose e carries an acute accent: code unit 0xE9\<close>
  "tecnic ini = ini @ [CHR 0xE9] @ ''cnic''"

definition optimizacion :: "string \<Rightarrow> string" where
  \<comment> \<open>the word Optimizacion or optimizacion, whose last o carries an acute accent: code
      unit 0xF3\<close>
  "optimizacion ini = ini @ ''ptimizaci'' @ [CHR 0xF3] @ ''n''"

definition getComprehensiveSampleAnalysis :: "string \<Rightarrow> SEOAnalysis" where
  "getComprehensiveSampleAnalysis page_url =
     \<lparr> url = page_url,
       title = guia @ '' Completa de SEO 2024 - Estrategias y '' @ tecnic ''T'' @ ''as Avanzadas'',
       metaDescription = ''Descubre las mejores estrategias SEO para 2024. '' @ guia
          @ '' completa con '' @ tecnic ''t''
          @ ''as avanzadas, herramientas y consejos para posicionar tu sitio web.'',
       metaKeywords = ''SEO, posicionamiento web, marketing digital, Google, '' @ optimizacion ''o'',
       canonicalUrl = page_url,
       openGraph = \<lparr> og_title = guia @ '' Completa de SEO 2024'',
                     og_description = ''Las mejores estrategias SEO para dominar Google'',
                     og_image = ''https://ejemplo.com/seo-guide.jpg'',
                     og_url = page_url,
                     og_type = ''article'',
                     og_siteName = ''SEO Masters'' \<rparr>,
       twitterCard = \<lparr> tw_card = ''summary_large_image'',
                      tw_title = guia @ '' SEO 2024'',
                      tw_description = ''Estrategias avanzadas de posicionamiento'',
                      tw_image = ''https://ejemplo.com/seo-guide.jpg'',
                      tw_site = ''@seoexperts'' \<rparr>,
       structuredData = \<lparr> hasSchema = True,
                         types = [JStr ''Article'', JStr ''BreadcrumbList'', JStr ''Organization''],
                         errors = [] \<rparr>,
       headings = \<lparr> h1 = [guia @ '' Completa de SEO 2024''],
                    h2 = [''Fundamentos del SEO'', ''SEO '' @ tecnic ''T'' @ ''o'',
                          ''Contenido y Palabras Clave'', ''Link Building''],
                    h3 = [optimizacion ''O'' @ '' On-Page'', ''Velocidad de Carga'',
                          ''Mobile First'', ''Core Web Vitals''],
                    h4 = [''Meta Tags'', ''Estructura URL'', ''Sitemap XML''],
                    h5 = [],
                    h6 = [] \<rparr>,
       images = \<lparr> total = 12, withAlt = 10, withoutAlt = 2,
                  missingAlt = [''chart-keywords.png'', ''diagram-seo.jpg''],
                  oversized = [''hero-banner.jpg''],
                  totalSize = 1840 \<rparr>,
       links = \<lparr> internal = 25, external = 8, broken = 0, nofollow = 3, dofollow = 30 \<rparr>,
       performance = \<lparr> loadTime = 1.2, pageSize = 1250, requests = 28 \<rparr>,
       mobile = \<lparr> responsive = True, viewportMeta = True, touchFriendly = True \<rparr>,
       security = \<lparr> https = True, mixedContent = False \<rparr>,
       accessibility = \<lparr> altImages = 10, headingStructure = True, colorContrast = True \<rparr>,
       keywordsAnalysis = \<lparr> density = [(''seo'', 3.2), (''posicionamiento'', 2.8), (''google'', 2.1),
                               (''contenido'', 1.9), (''palabras'', 1.7), (''clave'', 1.5),
                               (optimizacion ''o'', 1.3), (tecnic ''t'' @ ''o'', 1.1),
                               (''estrategias'', 0.9), (''marketing'', 0.8)],
                    suggestions = [''seo'', ''posicionamiento'', ''google'', ''contenido'', ''palabras''],
                    primary = [''seo'', ''posicionamiento'', ''google''],
                    secondary = [''contenido'', ''palabras'', ''clave'', optimizacion ''o''] \<rparr>,
       content = \<lparr> wordCount = 2450, readabilityScore = 78, duplicateContent = False,
                   languageDetected = ''es'' \<rparr>,
       technicalIssues = \<lparr> missingTitle = False, missingMetaDescription = False,
                           duplicateH1 = False, imagesMissingAlt = True, titleTooLong = False,
                           metaDescriptionTooLong = False, missingCanonical = False,
                           noIndex = False, noFollow = False \<rparr>,
       socialMedia = \<lparr> hasOpenGraph = True, hasTwitterCard = True, hasFacebookPixel = True,
                       hasGoogleAnalytics = True \<rparr>,
       score = 91,
       scores = \<lparr> technical = 88, contentScore = 94, performanceScore = 85,
                  accessibilityScore = 92, social = 96 \<rparr>,
       recommendations = [Sample_missingAlt, Sample_loadTime, Sample_structure, Sample_density,
                          Sample_optimized] \<rparr>"

text \<open>
  What the \<open>try\<close> block of \<open>analyzePage\<close> meets when it fetches the page: the request is
  aborted by the 3 second timer, the transport fails (or the response is not the JSON
  that is expected), or the contents arrive and \<open>DOMParser\<close> makes a document of them.
\<close>

datatype fetch_outcome = Fetch_timeout | Fetch_failure | Fetched document

type_synonym analysis_cache = "string \<rightharpoonup> SEOAnalysis"

definition analyzePage ::
  "platform \<Rightarrow> analysis_cache \<Rightarrow> string \<Rightarrow> fetch_outcome \<Rightarrow> rng
   \<Rightarrow> (js_error + SEOAnalysis) \<times> analysis_cache" where
  \<comment> \<open>The promise that \<open>analyzePage\<close> returns is modelled by a sum, \<open>Inl\<close> for a rejection.
      The \<open>catch\<close> covers the whole \<open>try\<close> block, an exception of \<open>parseHTML\<close> included.\<close>
  "analyzePage P cache page_url outcome g =
     (case cache page_url of
        Some cached \<Rightarrow> (Inr cached, cache)
      | None \<Rightarrow>
          (let analysis =
                 (case outcome of
                    Fetched doc \<Rightarrow>
                      (case parseHTML P doc page_url g of
                         Inr a \<Rightarrow> a
                       | Inl e \<Rightarrow> getComprehensiveSampleAnalysis page_url)
                  | _ \<Rightarrow> getComprehensiveSampleAnalysis page_url)
           in (Inr analysis, cache(page_url \<mapsto> analysis))))"

section \<open>Reference definitions\<close>

text \<open>What the statements below compare the code with.\<close>

fun steps_ok :: "int \<Rightarrow> int list \<Rightarrow> bool" where
  \<comment> \<open>no level of the list exceeds the level before it by more than one, \<open>prev\<close> being the
      level before the first\<close>
  "steps_ok prev [] = True"
| "steps_ok prev (l # ls) = (l \<le> prev + 1 \<and> steps_ok l ls)"

definition spec_headingStructure :: "int list \<Rightarrow> bool" where
  \<comment> \<open>the monotonic-depth check as the specification words it: only a heading that has a
      preceding heading is compared, whatever the level of the first one\<close>
  "spec_headingStructure levels = (case levels of [] \<Rightarrow> True | l # ls \<Rightarrow> steps_ok l ls)"

definition block_types :: "platform \<Rightarrow> element \<Rightarrow> json list" where
  \<comment> \<open>what one script block adds to \<open>types\<close>\<close>
  "block_types P script =
     (case JSON_parse P (textContent script) of
        Some (JObj kvs) \<Rightarrow> (case map_of kvs ''@type'' of
                             Some v \<Rightarrow> if truthy v then [v] else []
                           | None \<Rightarrow> [])
      | _ \<Rightarrow> [])"

definition block_errors :: "platform \<Rightarrow> element \<Rightarrow> string list" where
  \<comment> \<open>what one script block adds to \<open>errors\<close>\<close>
  "block_errors P script =
     (case JSON_parse P (textContent script) of
        None \<Rightarrow> [''Invalid JSON-LD structure'']
      | Some JNull \<Rightarrow> [''Invalid JSON-LD structure'']
      | Some v \<Rightarrow> [])"

definition href_of :: "element \<Rightarrow> string" where
  "href_of link = or_empty (getAttribute link ''href'')"

definition counted_external :: "string \<Rightarrow> string \<Rightarrow> bool" where
  \<comment> \<open>the test of the code for an external link, \<open>h\<close> being the host name of the page\<close>
  "counted_external h href = (startsWith href ''http'' \<and> \<not> js_includes href h)"

definition counted_internal :: "string \<Rightarrow> string \<Rightarrow> bool" where
  \<comment> \<open>the test of the code for an internal link\<close>
  "counted_internal h href =
     (\<not> counted_external h href \<and> (startsWith href ''/'' \<or> js_includes href h))"

definition count_where :: "('a \<Rightarrow> bool) \<Rightarrow> 'a list \<Rightarrow> int" where
  "count_where p xs = int (length (filter p xs))"

definition anchors :: "document \<Rightarrow> element list" where
  \<comment> \<open>the anchor elements with an \<open>href\<close>, which the link analysis iterates\<close>
  "anchors doc = querySelectorAll doc [Sel_has ''a'' ''href'']"

definition spec_external :: "platform \<Rightarrow> string \<Rightarrow> string \<Rightarrow> bool" where
  \<comment> \<open>external as the specification words it: the \<open>href\<close> is absolute, that is \<open>new URL(href)\<close>
      accepts it, and its host differs from the host of the page\<close>
  "spec_external P pageHost href =
     (case URL_hostname P href of None \<Rightarrow> False | Some h \<Rightarrow> h \<noteq> pageHost)"

definition spec_internal :: "platform \<Rightarrow> string \<Rightarrow> string \<Rightarrow> bool" where
  \<comment> \<open>internal as the specification words it: the \<open>href\<close> starts with a slash or shares the
      host of the page\<close>
  "spec_internal P pageHost href = (startsWith href ''/'' \<or> URL_hostname P href = Some pageHost)"

fun random_line :: "recommendation \<Rightarrow> bool" where
  \<comment> \<open>the recommendations whose condition reads a field that \<open>Math.random\<close> decides\<close>
  "random_line Rec_duplicateContent = True"
| "random_line Rec_oversizedImages = True"
| "random_line Rec_performance = True"
| "random_line Rec_accessibility = True"
| "random_line r = False"

definition without_random_fields :: "SEOAnalysis \<Rightarrow> SEOAnalysis" where
  \<comment> \<open>the report with the fields that \<open>Math.random\<close> decides, and the scores computed from
      them, set to fixed values, and without the recommendations that depend on them\<close>
  "without_random_fields r =
     r\<lparr> images := (images r)\<lparr> oversized := [], totalSize := 0 \<rparr>,
        links := (links r)\<lparr> broken := 0 \<rparr>,
        performance := \<lparr> loadTime = 0, pageSize = 0, requests = 0 \<rparr>,
        mobile := (mobile r)\<lparr> touchFriendly := False \<rparr>,
        security := (security r)\<lparr> mixedContent := False \<rparr>,
        accessibility := (accessibility r)\<lparr> colorContrast := False \<rparr>,
        content := (content r)\<lparr> duplicateContent := False \<rparr>,
        score := 0,
        scores := (scores r)\<lparr> contentScore := 0, performanceScore := 0, accessibilityScore := 0 \<rparr>,
        recommendations := filter (\<lambda>x. \<not> random_line x) (recommendations r) \<rparr>"

definition stripped_tokens :: "string \<Rightarrow> string list" where
  \<comment> \<open>the tokens of a text after lower-casing and stripping of punctuation\<close>
  "stripped_tokens text = split_ws (filter (\<lambda>c. is_word_char c \<or> is_space c) (toLowerCase text))"

definition first_seen :: "string list \<Rightarrow> string list" where
  \<comment> \<open>the distinct tokens, each at the place of its first occurrence\<close>
  "first_seen ws = foldl (\<lambda>acc w. if w \<in> set acc then acc else acc @ [w]) [] ws"

fun insert_asc :: "string \<Rightarrow> string list \<Rightarrow> string list" where
  "insert_asc k [] = [k]"
| "insert_asc k (k' # ks) =
     (if index_value k' \<le> index_value k then k' # insert_asc k ks else k # k' # ks)"

definition index_order :: "string list \<Rightarrow> string list" where
  \<comment> \<open>array indices in ascending numeric order\<close>
  "index_order ks = foldl (\<lambda>acc k. insert_asc k acc) [] ks"

definition enum_keys :: "string list \<Rightarrow> string list" where
  \<comment> \<open>the distinct tokens in the order in which JavaScript enumerates them as keys of an
      object: the array indices in ascending numeric order, then the other tokens in
      first-seen order\<close>
  "enum_keys ws = index_order (first_seen (filter is_array_index ws))
                  @ first_seen (filter (\<lambda>w. \<not> is_array_index w) ws)"

definition ranked_keywords :: "string list \<Rightarrow> string list \<Rightarrow> KeywordsAnalysis" where
  \<comment> \<open>the percentage of each key among the tokens, the keys sorted by descending
      percentage with ties kept in the order of \<open>keys\<close>, the top 15, the first 3 of them
      and the items 4 to 10\<close>
  "ranked_keywords keys tokens =
     (let dens = map (\<lambda>k. (k, (real (count_list tokens k) / real (length tokens)) * 100)) keys;
          top = map fst (take 15 (sort_key (\<lambda>(word, a). - a) dens))
      in \<lparr> density = dens, suggestions = top, primary = take 3 top,
           secondary = drop 3 (take 10 top) \<rparr>)"

definition spec_keywords :: "string \<Rightarrow> KeywordsAnalysis" where
  \<comment> \<open>the reference pipeline of the specification: ties in first-seen order\<close>
  "spec_keywords text = ranked_keywords (first_seen (keyword_words text)) (keyword_words text)"

definition enum_keywords :: "string \<Rightarrow> KeywordsAnalysis" where
  \<comment> \<open>the same pipeline with ties in the enumeration order of the keys\<close>
  "enum_keywords text = ranked_keywords (enum_keys (keyword_words text)) (keyword_words text)"

section \<open>Concrete inputs\<close>

definition rng_const :: "real \<Rightarrow> rng" where
  \<comment> \<open>a source of random numbers that returns \<open>r\<close> every time\<close>
  "rng_const r = \<lparr> tape = (\<lambda>i. r), pos = 0 \<rparr>"

definition doc_of :: "element list \<Rightarrow> document" where
  \<comment> \<open>a document of these elements, with a body that has no text\<close>
  "doc_of es = \<lparr> elements = es, body = Some [] \<rparr>"

definition img_empty_alt :: element where
  \<comment> \<open>\<open><img alt="" src="a.png">\<close>\<close>
  "img_empty_alt =
     \<lparr> localName = ''img'', attributes = [(''alt'', []), (''src'', ''a.png'')], textContent = [] \<rparr>"

definition h2_only :: document where
  \<comment> \<open>\<open><h2>Intro</h2>\<close>\<close>
  "h2_only = doc_of [\<lparr> localName = ''h2'', attributes = [], textContent = ''Intro'' \<rparr>]"

definition ld_script :: "string \<Rightarrow> element" where
  \<comment> \<open>\<open><script type="application/ld+json">s</script>\<close>\<close>
  "ld_script s =
     \<lparr> localName = ''script'', attributes = [(''type'', ''application/ld+json'')], textContent = s \<rparr>"

definition demo_platform :: platform where
  \<comment> \<open>the answers of the platform on the strings that the concrete inputs use\<close>
  \<open>demo_platform =
     \<lparr> URL_hostname = map_of [(''https://example.com/'', ''example.com''),
                              (''https://other.org/?ref=example.com'', ''other.org'')],
       JSON_parse = map_of [(''{"@type":""}'', JObj [(''@type'', JStr [])]),
                            (''{"@type":"Article"}'', JObj [(''@type'', JStr ''Article'')])] \<rparr>\<close>

definition anchor :: "string \<Rightarrow> element" where
  \<comment> \<open>\<open><a href="...">link</a>\<close>\<close>
  "anchor href = \<lparr> localName = ''a'', attributes = [(''href'', href)], textContent = ''link'' \<rparr>"

section \<open>The issue checker: missing and too long exclude each other\<close>

text \<open>
  C9. The issue checker never reports both \<open>missingTitle\<close> and \<open>titleTooLong\<close>, and never
  both \<open>missingMetaDescription\<close> and \<open>metaDescriptionTooLong\<close>: a missing field is the
  empty string, whose length 0 exceeds neither 60 nor 160. So the deductions for a missing
  and for an over-long field never stack: the technical score computed from these issues
  loses at most 25 + 20 + 15 + 10 and is at least 30.
\<close>

theorem missing_and_too_long_exclusive:
  "\<not> (missingTitle (checkTechnicalIssues doc t d hs imgs c)
       \<and> titleTooLong (checkTechnicalIssues doc t d hs imgs c))
   \<and> \<not> (missingMetaDescription (checkTechnicalIssues doc t d hs imgs c)
       \<and> metaDescriptionTooLong (checkTechnicalIssues doc t d hs imgs c))
   \<and> 30 \<le> technical (fst (calculateDetailedScores t d hs imgs
                  (checkTechnicalIssues doc t d hs imgs c) cont lks mob acc soc g))"
proof (intro conjI)
  show "\<not> (missingTitle (checkTechnicalIssues doc t d hs imgs c)
       \<and> titleTooLong (checkTechnicalIssues doc t d hs imgs c))"
    by (simp add: checkTechnicalIssues_def Let_def)
  show "\<not> (missingMetaDescription (checkTechnicalIssues doc t d hs imgs c)
       \<and> metaDescriptionTooLong (checkTechnicalIssues doc t d hs imgs c))"
    by (simp add: checkTechnicalIssues_def Let_def)
  show "30 \<le> technical (fst (calculateDetailedScores t d hs imgs
                  (checkTechnicalIssues doc t d hs imgs c) cont lks mob acc soc g))"
    by (simp add: calculateDetailedScores_def checkTechnicalIssues_def Let_def split_beta
          minus_if_def)
qed

section \<open>Images: an empty alt attribute\<close>

text \<open>
  C2, at the document \<open><img alt="" src="a.png">\<close>. The selector \<open>img[alt]\<close> counts the image
  as one with an alt attribute, so \<open>withoutAlt\<close> is 0, while the loop tests the value of the
  attribute, finds the empty string and records the image in \<open>missingAlt\<close>: the length of
  \<open>missingAlt\<close> is 1, not \<open>withoutAlt\<close>.
\<close>

theorem empty_alt_breaks_missingAlt_count:
  "total (fst (analyzeImages (doc_of [img_empty_alt]) (rng_const 0))) = 1
   \<and> withAlt (fst (analyzeImages (doc_of [img_empty_alt]) (rng_const 0))) = 1
   \<and> withoutAlt (fst (analyzeImages (doc_of [img_empty_alt]) (rng_const 0))) = 0
   \<and> missingAlt (fst (analyzeImages (doc_of [img_empty_alt]) (rng_const 0))) = [''a.png'']"
  by (simp add: analyzeImages_def doc_of_def img_empty_alt_def rng_const_def querySelectorAll_def
        getAttribute_def images_step_def falsy_attr_def src_or_unknown_def or_empty_def
        Math_random_def Let_def)

text \<open>The counts themselves always add up.\<close>

lemma image_counts_add_up:
  "withAlt (fst (analyzeImages doc g)) + withoutAlt (fst (analyzeImages doc g))
     = total (fst (analyzeImages doc g))"
  by (simp add: analyzeImages_def Let_def split_beta)

section \<open>Accessibility: the heading hierarchy\<close>

lemma heading_loop:
  "fst (foldl heading_step (p, prev) hs) = (p \<and> steps_ok prev (map heading_level hs))"
  by (induction hs arbitrary: p prev) (auto simp: heading_step_def Let_def)

lemma heading_level_range:
  "e \<in> set (all_headings doc) \<Longrightarrow> 1 \<le> heading_level e \<and> heading_level e \<le> 6"
  by (auto simp: all_headings_def querySelectorAll_def heading_level_def digit_val_def)

text \<open>
  C6, as the code has it. The headings of the document, in document order, have levels 1
  to 6, and \<open>headingStructure\<close> is true exactly when no level exceeds the level before it by
  more than one, the level before the first heading being 0: a document whose first
  heading is not an h1 is flagged.
\<close>

theorem headingStructure_from_level_0:
  "headingStructure (fst (analyzeAccessibility doc imgs g))
     = steps_ok 0 (map heading_level (all_headings doc))
   \<and> list_all (\<lambda>e. 1 \<le> heading_level e \<and> heading_level e \<le> 6) (all_headings doc)"
  by (simp add: analyzeAccessibility_def Let_def heading_loop split_beta list_all_iff
        heading_level_range)

text \<open>
  C6 as stated fails at the document \<open><h2>Intro</h2>\<close>: no heading has a preceding heading,
  so the check of the specification passes, and the code sets \<open>headingStructure\<close> to false.
\<close>

theorem first_heading_h2_is_flagged:
  "spec_headingStructure (map heading_level (all_headings h2_only))
   \<and> \<not> headingStructure (fst (analyzeAccessibility h2_only
                                (fst (analyzeImages h2_only (rng_const 0))) (rng_const 0)))"
  by (simp add: analyzeAccessibility_def Let_def split_beta h2_only_def doc_of_def all_headings_def
        querySelectorAll_def heading_step_def heading_level_def digit_val_def
        spec_headingStructure_def)

section \<open>Structured data\<close>

lemma structured_loop:
  "foldl (structured_step P) (tys, errs) ss
     = (tys @ concat (map (block_types P) ss), errs @ concat (map (block_errors P) ss))"
proof (induction ss arbitrary: tys errs)
  case Nil
  show ?case by simp
next
  case (Cons s ss)
  have "structured_step P (tys, errs) s = (tys @ block_types P s, errs @ block_errors P s)"
    by (simp add: structured_step_def block_types_def block_errors_def invalid_json_ld_def
          split: option.splits json.splits)
  then show ?case using Cons.IH by simp
qed

text \<open>
  C8, as the code has it. Every \<open>application/ld+json\<close> script block contributes on its own,
  in document order: a block that parses to an object whose \<open>@type\<close> is truthy (not the
  empty string, 0, false or null) appends that value to \<open>types\<close>; a block that fails to
  parse, or that parses to \<open>null\<close>, appends the literal \<open>Invalid JSON-LD structure\<close> to
  \<open>errors\<close>; any other block appends nothing; and \<open>hasSchema\<close> is true exactly when there
  is at least one such block.
\<close>

theorem structured_data_per_block:
  "types (extractStructuredData P doc) = concat (map (block_types P) (ld_json_scripts doc))
   \<and> errors (extractStructuredData P doc) = concat (map (block_errors P) (ld_json_scripts doc))
   \<and> hasSchema (extractStructuredData P doc) = (ld_json_scripts doc \<noteq> [])"
  by (simp add: extractStructuredData_def Let_def structured_loop)

text \<open>
  C8 as stated fails at the block \<open>{"@type":""}\<close>: it parses, it has an \<open>@type\<close> field, and
  nothing is appended to \<open>types\<close>.
\<close>

theorem empty_type_is_not_appended:
  \<open>JSON_parse demo_platform (textContent (ld_script ''{"@type":""}''))
     = Some (JObj [(''@type'', JStr [])])
   \<and> ld_json_scripts (doc_of [ld_script ''{"@type":""}'']) = [ld_script ''{"@type":""}'']
   \<and> types (extractStructuredData demo_platform (doc_of [ld_script ''{"@type":""}''])) = []
   \<and> errors (extractStructuredData demo_platform (doc_of [ld_script ''{"@type":""}''])) = []\<close>
  by (simp add: demo_platform_def ld_script_def doc_of_def extractStructuredData_def
        ld_json_scripts_def querySelectorAll_def getAttribute_def attr_value_eq_def
        ascii_lower_def structured_step_def Let_def)

section \<open>A page that cannot be fetched\<close>

text \<open>
  C4, as the code has it. When the page cannot be fetched (timeout or transport failure)
  and the cache has no report for the URL, \<open>analyzePage\<close> resolves with the static sample
  report for that URL and stores it in the cache; no error reaches the caller.
\<close>

theorem fetch_failure_returns_sample:
  "cache u = None \<Longrightarrow> outcome = Fetch_timeout \<or> outcome = Fetch_failure \<Longrightarrow>
   analyzePage P cache u outcome g
     = (Inr (getComprehensiveSampleAnalysis u), cache(u \<mapsto> getComprehensiveSampleAnalysis u))"
  by (auto simp: analyzePage_def Let_def)

text \<open>The statement above at a transport failure with an empty cache.\<close>

theorem fetch_failure_returns_sample_witness:
  "fst (analyzePage demo_platform Map.empty ''https://example.com/'' Fetch_failure (rng_const 0))
     = Inr (getComprehensiveSampleAnalysis ''https://example.com/'')"
  using fetch_failure_returns_sample
    [of Map.empty "''https://example.com/''" Fetch_failure demo_platform "rng_const 0"]
  by simp

text \<open>
  C4 as stated fails at a timeout: the caller receives a report, the sample with its
  score of 91, and no error.
\<close>

theorem timeout_yields_fabricated_report:
  "fst (analyzePage demo_platform Map.empty ''https://example.com/'' Fetch_timeout (rng_const 0))
     = Inr (getComprehensiveSampleAnalysis ''https://example.com/'')
   \<and> score (getComprehensiveSampleAnalysis ''https://example.com/'') = 91"
proof
  show "fst (analyzePage demo_platform Map.empty ''https://example.com/'' Fetch_timeout (rng_const 0))
     = Inr (getComprehensiveSampleAnalysis ''https://example.com/'')"
    by (simp add: analyzePage_def Let_def)
  show "score (getComprehensiveSampleAnalysis ''https://example.com/'') = 91"
    by (simp add: getComprehensiveSampleAnalysis_def)
qed

section \<open>The scores\<close>

lemma floor_unit_mult:
  fixes r :: real
  assumes "0 \<le> r" "r < 1" "0 < n"
  shows "0 \<le> \<lfloor>r * real_of_int n\<rfloor> \<and> \<lfloor>r * real_of_int n\<rfloor> < n"
proof -
  have "0 \<le> r * real_of_int n" using assms by simp
  moreover have "r * real_of_int n < real_of_int n" using assms by simp
  ultimately show ?thesis by (simp add: floor_less_iff)
qed

lemma minus_if_le: "0 \<le> n \<Longrightarrow> s \<le> k \<Longrightarrow> minus_if b n s \<le> k"
  by (simp add: minus_if_def)

lemma alt_deduction_le: "s \<le> k \<Longrightarrow> minus_if (0 < w) (min (w * 5) 30) s \<le> k"
  by (auto simp: minus_if_def min_def)

lemma technical_range:
  "0 \<le> technical (fst (calculateDetailedScores t d hs im is c l m a s g))
   \<and> technical (fst (calculateDetailedScores t d hs im is c l m a s g)) \<le> 100"
  by (simp add: calculateDetailedScores_def Let_def split_beta minus_if_le)

lemma contentScore_range:
  "0 \<le> contentScore (fst (calculateDetailedScores t d hs im is c l m a s g))
   \<and> contentScore (fst (calculateDetailedScores t d hs im is c l m a s g)) \<le> 100"
  by (simp add: calculateDetailedScores_def Let_def split_beta minus_if_le)

lemma performanceScore_range:
  assumes "rng_ok g"
  shows "0 \<le> performanceScore (fst (calculateDetailedScores t d hs im is c l m a s g))
   \<and> performanceScore (fst (calculateDetailedScores t d hs im is c l m a s g)) \<le> 100"
proof -
  have r: "0 \<le> tape g (pos g)" "tape g (pos g) < 1" using assms by (auto simp: rng_ok_def)
  have "0 \<le> \<lfloor>tape g (pos g) * 20\<rfloor> \<and> \<lfloor>tape g (pos g) * 20\<rfloor> < 20"
    using floor_unit_mult [OF r, of 20] by simp
  then show ?thesis
    by (simp add: calculateDetailedScores_def Let_def Math_random_def)
qed

lemma accessibilityScore_range:
  "0 \<le> accessibilityScore (fst (calculateDetailedScores t d hs im is c l m a s g))
   \<and> accessibilityScore (fst (calculateDetailedScores t d hs im is c l m a s g)) \<le> 100"
  by (simp add: calculateDetailedScores_def Let_def split_beta minus_if_le alt_deduction_le)

lemma social_range:
  "0 \<le> social (fst (calculateDetailedScores t d hs im is c l m a s g))
   \<and> social (fst (calculateDetailedScores t d hs im is c l m a s g)) \<le> 100"
  by (simp add: calculateDetailedScores_def Let_def split_beta minus_if_le)

text \<open>The sample report has scores in the same range, and its score is their rounded mean.\<close>

lemma sample_scores:
  "scores (getComprehensiveSampleAnalysis u)
     = \<lparr> technical = 88, contentScore = 94, performanceScore = 85,
         accessibilityScore = 92, social = 96 \<rparr>
   \<and> score (getComprehensiveSampleAnalysis u) = mean_score (scores (getComprehensiveSampleAnalysis u))"
  by (simp add: getComprehensiveSampleAnalysis_def mean_score_def)

subsection \<open>The random numbers that a call consumes\<close>

lemma tape_Math_random [simp]: "tape (snd (Math_random g)) = tape g"
  by (simp add: Math_random_def)

lemma tape_images_loop: "tape (snd (snd (foldl images_step (m, ov, g) xs))) = tape g"
  by (induction xs arbitrary: m ov g) (simp_all add: images_step_def Let_def split_beta)

lemma tape_analyzeImages [simp]: "tape (snd (analyzeImages doc g)) = tape g"
proof -
  obtain m ov g1 where
    f: "foldl images_step ([], [], g) (querySelectorAll doc [Sel_tag ''img'']) = (m, ov, g1)"
    by (metis prod_cases3)
  have "tape g1 = tape g"
    using tape_images_loop [of "[]" "[]" g "querySelectorAll doc [Sel_tag ''img'']"] f by simp
  then show ?thesis by (simp add: analyzeImages_def Let_def f split_beta)
qed

lemma tape_analyzeLinks: "analyzeLinks P doc u g = Inr (l, g') \<Longrightarrow> tape g' = tape g"
  by (auto simp: analyzeLinks_def Let_def split_beta Math_random_def split: sum.splits)

lemma tape_analyzeContent [simp]: "tape (snd (analyzeContent t g)) = tape g"
  by (simp add: analyzeContent_def Let_def split_beta)

lemma tape_analyzeMobile [simp]: "tape (snd (analyzeMobile doc g)) = tape g"
  by (simp add: analyzeMobile_def Let_def split_beta)

lemma tape_analyzeAccessibility [simp]: "tape (snd (analyzeAccessibility doc im g)) = tape g"
  by (simp add: analyzeAccessibility_def Let_def split_beta)

lemma tape_analyzeSecurity [simp]: "tape (snd (analyzeSecurity u g)) = tape g"
  by (simp add: analyzeSecurity_def Let_def split_beta)

lemma rng_ok_tape: "tape g' = tape g \<Longrightarrow> rng_ok g \<Longrightarrow> rng_ok g'"
  by (simp add: rng_ok_def)

subsection \<open>The links of a page whose URL parses\<close>

lemma links_step_eq:
  assumes "URL_hostname P u = Some h"
  shows "links_step P u c link =
     Inr (count_rel link
           (if counted_external h (href_of link) then c\<lparr>n_external := n_external c + 1\<rparr>
            else if counted_internal h (href_of link) then c\<lparr>n_internal := n_internal c + 1\<rparr>
            else c))"
  using assms
  by (simp add: links_step_def is_external_def is_internal_def page_hostname_def Let_def
        counted_external_def counted_internal_def href_of_def)

lemma links_loop_eq:
  assumes "URL_hostname P u = Some h"
  shows "\<exists>c'. links_loop P u c ls = Inr c'
     \<and> n_external c' = n_external c + count_where (\<lambda>l. counted_external h (href_of l)) ls
     \<and> n_internal c' = n_internal c + count_where (\<lambda>l. counted_internal h (href_of l)) ls"
proof (induction ls arbitrary: c)
  case Nil
  show ?case by (simp add: count_where_def)
next
  case (Cons link ls)
  let ?c1 = "count_rel link
           (if counted_external h (href_of link) then c\<lparr>n_external := n_external c + 1\<rparr>
            else if counted_internal h (href_of link) then c\<lparr>n_internal := n_internal c + 1\<rparr>
            else c)"
  have step: "links_step P u c link = Inr ?c1" by (rule links_step_eq [OF assms])
  obtain c' where c': "links_loop P u ?c1 ls = Inr c'"
     "n_external c' = n_external ?c1 + count_where (\<lambda>l. counted_external h (href_of l)) ls"
     "n_internal c' = n_internal ?c1 + count_where (\<lambda>l. counted_internal h (href_of l)) ls"
    using Cons.IH [of ?c1] by blast
  have e: "n_external ?c1 = n_external c + (if counted_external h (href_of link) then 1 else 0)"
    by (simp add: count_rel_def)
  have i: "n_internal ?c1 = n_internal c + (if counted_internal h (href_of link) then 1 else 0)"
    by (simp add: count_rel_def counted_internal_def)
  have "links_loop P u c (link # ls) = Inr c'" using step c'(1) by simp
  moreover have "n_external c' =
      n_external c + count_where (\<lambda>l. counted_external h (href_of l)) (link # ls)"
    using c'(2) e by (simp add: count_where_def)
  moreover have "n_internal c' =
      n_internal c + count_where (\<lambda>l. counted_internal h (href_of l)) (link # ls)"
    using c'(3) i by (simp add: count_where_def)
  ultimately show ?case by blast
qed

lemma analyzeLinks_returns:
  "URL_hostname P u = Some h \<Longrightarrow> \<exists>p. analyzeLinks P doc u g = Inr p"
proof -
  assume h: "URL_hostname P u = Some h"
  obtain c where
    "links_loop P u \<lparr> n_internal = 0, n_external = 0, n_nofollow = 0, n_dofollow = 0 \<rparr>
        (querySelectorAll doc [Sel_has ''a'' ''href'']) = Inr c"
    using links_loop_eq [OF h] by blast
  then show ?thesis by (simp add: analyzeLinks_def Let_def split_beta)
qed

lemma parseHTML_returns:
  assumes "URL_hostname P u = Some h"
  shows "\<exists>r. parseHTML P doc u g = Inr r"
proof -
  obtain p where "analyzeLinks P doc u (snd (analyzeImages doc g)) = Inr p"
    using analyzeLinks_returns [OF assms] by blast
  then show ?thesis by (simp add: parseHTML_def Let_def split_beta)
qed

subsection \<open>The scores of a report\<close>

lemma parseHTML_scores:
  assumes "parseHTML P doc u g = Inr r"
  shows "\<exists>t d hs im is c l m a s g'. tape g' = tape g
           \<and> scores r = fst (calculateDetailedScores t d hs im is c l m a s g')
           \<and> score r = mean_score (scores r)"
proof (cases "analyzeLinks P doc u (snd (analyzeImages doc g))")
  case (Inl e)
  with assms show ?thesis by (simp add: parseHTML_def Let_def split_beta)
next
  case (Inr p)
  obtain l g2 where p: "p = (l, g2)" by (cases p)
  have g2: "tape g2 = tape g" using tape_analyzeLinks [of P doc u _ l g2] Inr p by simp
  let ?g5 = "snd (analyzeImages doc (snd (analyzeMobile doc (snd (analyzeContent (bodyText doc) g2)))))"
  let ?im2 = "fst (analyzeImages doc (snd (analyzeMobile doc (snd (analyzeContent (bodyText doc) g2)))))"
  let ?g7 = "snd (analyzeSecurity u (snd (analyzeAccessibility doc ?im2 ?g5)))"
  have "tape ?g7 = tape g" using g2 by simp
  moreover from assms Inr p have "scores r = fst (calculateDetailedScores
      (text_of (querySelector doc [Sel_tag ''title'']))
      (meta_content doc ''name'' ''description'')
      (extractHeadings doc) (fst (analyzeImages doc g))
      (checkTechnicalIssues doc (text_of (querySelector doc [Sel_tag ''title'']))
         (meta_content doc ''name'' ''description'') (extractHeadings doc) (fst (analyzeImages doc g))
         (attr_of (querySelector doc [Sel_eq ''link'' ''rel'' ''canonical'']) ''href''))
      (fst (analyzeContent (bodyText doc) g2)) l
      (fst (analyzeMobile doc (snd (analyzeContent (bodyText doc) g2))))
      (fst (analyzeAccessibility doc ?im2 ?g5))
      (analyzeSocialMedia doc) ?g7) \<and> score r = mean_score (scores r)"
    by (auto simp: parseHTML_def Let_def split_beta)
  ultimately show ?thesis by blast
qed

text \<open>
  C1. In every report that \<open>parseHTML\<close> returns, with random numbers in \<open>[0, 1)\<close>, each of the
  five sub-scores lies between 0 and 100, and the overall score is the rounded mean of
  the five.
\<close>

theorem scores_in_range_and_mean:
  assumes "parseHTML P doc u g = Inr r" and "rng_ok g"
  shows "0 \<le> technical (scores r) \<and> technical (scores r) \<le> 100
       \<and> 0 \<le> contentScore (scores r) \<and> contentScore (scores r) \<le> 100
       \<and> 0 \<le> performanceScore (scores r) \<and> performanceScore (scores r) \<le> 100
       \<and> 0 \<le> accessibilityScore (scores r) \<and> accessibilityScore (scores r) \<le> 100
       \<and> 0 \<le> social (scores r) \<and> social (scores r) \<le> 100
       \<and> score r = round (real_of_int (technical (scores r) + contentScore (scores r)
                       + performanceScore (scores r) + accessibilityScore (scores r)
                       + social (scores r)) / 5)"
proof -
  obtain t d hs im "is" c l m a s g' where g': "tape g' = tape g"
    and sc: "scores r = fst (calculateDetailedScores t d hs im is c l m a s g')"
    and mean: "score r = mean_score (scores r)"
    using parseHTML_scores [OF assms(1)] by blast
  have ok: "rng_ok g'" using g' assms(2) by (rule rng_ok_tape)
  show ?thesis
    using technical_range [of t d hs im "is" c l m a s g']
      contentScore_range [of t d hs im "is" c l m a s g']
      performanceScore_range [OF ok, of t d hs im "is" c l m a s]
      accessibilityScore_range [of t d hs im "is" c l m a s g']
      social_range [of t d hs im "is" c l m a s g'] mean
    by (simp add: sc mean_score_def)
qed

text \<open>
  The statement above at the empty document of \<open>https://example.com/\<close>, every random
  number being one half: \<open>parseHTML\<close> returns a report there.
\<close>

theorem scores_in_range_and_mean_witness:
  "rng_ok (rng_const (1/2))
   \<and> (\<exists>r. parseHTML demo_platform (doc_of []) ''https://example.com/'' (rng_const (1/2)) = Inr r
        \<and> 0 \<le> technical (scores r) \<and> technical (scores r) \<le> 100
        \<and> 0 \<le> contentScore (scores r) \<and> contentScore (scores r) \<le> 100
        \<and> 0 \<le> performanceScore (scores r) \<and> performanceScore (scores r) \<le> 100
        \<and> 0 \<le> accessibilityScore (scores r) \<and> accessibilityScore (scores r) \<le> 100
        \<and> 0 \<le> social (scores r) \<and> social (scores r) \<le> 100
        \<and> score r = round (real_of_int (technical (scores r) + contentScore (scores r)
                       + performanceScore (scores r) + accessibilityScore (scores r)
                       + social (scores r)) / 5))"
proof -
  have ok: "rng_ok (rng_const (1/2))" by (simp add: rng_ok_def rng_const_def)
  have "URL_hostname demo_platform ''https://example.com/'' = Some ''example.com''"
    by (simp add: demo_platform_def)
  then obtain r where
    r: "parseHTML demo_platform (doc_of []) ''https://example.com/'' (rng_const (1/2)) = Inr r"
    using parseHTML_returns by blast
  from scores_in_range_and_mean [OF r ok] r ok show ?thesis by blast
qed

section \<open>Links: internal and external\<close>

text \<open>
  C5, as the code has it. On a page whose URL parses, with host name \<open>h\<close>, the link
  analysis returns, and it counts an anchor with an \<open>href\<close> as external exactly when the
  \<open>href\<close> starts with \<open>http\<close> and does not contain \<open>h\<close> as a substring, and as internal
  exactly when it is not counted external and starts with a slash or contains \<open>h\<close> as a
  substring.
\<close>

theorem link_counts_by_prefix_and_substring:
  assumes "URL_hostname P u = Some h"
  shows "\<exists>la g'. analyzeLinks P doc u g = Inr (la, g')
     \<and> external la = count_where (\<lambda>l. counted_external h (href_of l)) (anchors doc)
     \<and> internal la = count_where (\<lambda>l. counted_internal h (href_of l)) (anchors doc)"
proof -
  obtain c where
    c: "links_loop P u \<lparr> n_internal = 0, n_external = 0, n_nofollow = 0, n_dofollow = 0 \<rparr>
          (anchors doc) = Inr c"
       "n_external c = count_where (\<lambda>l. counted_external h (href_of l)) (anchors doc)"
       "n_internal c = count_where (\<lambda>l. counted_internal h (href_of l)) (anchors doc)"
    using links_loop_eq [OF assms,
        of "\<lparr> n_internal = 0, n_external = 0, n_nofollow = 0, n_dofollow = 0 \<rparr>" "anchors doc"]
    by auto
  show ?thesis using c by (simp add: analyzeLinks_def Let_def split_beta anchors_def)
qed

text \<open>
  The statement above on the page \<open>https://example.com/\<close> with three anchors: \<open>/about\<close> is
  internal, \<open>https://other.org/\<close> is external, \<open>mailto:a@b.c\<close> is neither.
\<close>

theorem link_counts_by_prefix_and_substring_witness:
  "\<exists>la g'. analyzeLinks demo_platform
              (doc_of [anchor ''/about'', anchor ''https://other.org/'', anchor ''mailto:a@b.c''])
              ''https://example.com/'' (rng_const 0) = Inr (la, g')
     \<and> external la = 1 \<and> internal la = 1"
proof -
  have h: "URL_hostname demo_platform ''https://example.com/'' = Some ''example.com''"
    by (simp add: demo_platform_def)
  have a: "anchors (doc_of [anchor ''/about'', anchor ''https://other.org/'', anchor ''mailto:a@b.c''])
      = [anchor ''/about'', anchor ''https://other.org/'', anchor ''mailto:a@b.c'']"
    by (simp add: anchors_def doc_of_def querySelectorAll_def anchor_def getAttribute_def)
  have e: "count_where (\<lambda>l. counted_external ''example.com'' (href_of l))
       [anchor ''/about'', anchor ''https://other.org/'', anchor ''mailto:a@b.c''] = 1"
    by (simp add: count_where_def counted_external_def href_of_def anchor_def getAttribute_def
         or_empty_def startsWith_def)
  have i: "count_where (\<lambda>l. counted_internal ''example.com'' (href_of l))
       [anchor ''/about'', anchor ''https://other.org/'', anchor ''mailto:a@b.c''] = 1"
    by (simp add: count_where_def counted_internal_def counted_external_def href_of_def
         anchor_def getAttribute_def or_empty_def startsWith_def)
  show ?thesis
    using link_counts_by_prefix_and_substring [OF h,
        of "doc_of [anchor ''/about'', anchor ''https://other.org/'', anchor ''mailto:a@b.c'']"
           "rng_const 0"]
    by (simp add: a e i)
qed

text \<open>
  C5 as stated fails on the page \<open>https://example.com/\<close> at the anchor
  \<open>https://other.org/?ref=example.com\<close>: the \<open>href\<close> is absolute and its host \<open>other.org\<close>
  is not the host of the page, it does not start with a slash, and the code counts it as
  internal, not as external, because the host name of the page occurs in its query.
\<close>

theorem substring_of_other_host_counts_internal:
  "spec_external demo_platform ''example.com'' ''https://other.org/?ref=example.com''
   \<and> \<not> spec_internal demo_platform ''example.com'' ''https://other.org/?ref=example.com''
   \<and> URL_hostname demo_platform ''https://example.com/'' = Some ''example.com''
   \<and> (case analyzeLinks demo_platform (doc_of [anchor ''https://other.org/?ref=example.com''])
              ''https://example.com/'' (rng_const 0) of
         Inl e \<Rightarrow> False
       | Inr (la, g') \<Rightarrow> external la = 0 \<and> internal la = 1)"
  by (simp add: spec_external_def spec_internal_def demo_platform_def startsWith_def
       analyzeLinks_def doc_of_def querySelectorAll_def anchor_def getAttribute_def Let_def
       links_step_def is_external_def is_internal_def page_hostname_def or_empty_def count_rel_def
       rng_const_def Math_random_def)

section \<open>Two runs on the same input\<close>

lemma images_loop_missing:
  "fst (foldl images_step (m, ov, g) xs)
     = m @ map src_or_unknown (filter (\<lambda>img. falsy_attr (getAttribute img ''alt'')) xs)"
  by (induction xs arbitrary: m ov g) (simp_all add: images_step_def Let_def split_beta)

lemma analyzeImages_stable:
  "(fst (analyzeImages doc g))\<lparr> oversized := [], totalSize := 0 \<rparr>
     = \<lparr> total = int (length (querySelectorAll doc [Sel_tag ''img''])),
         withAlt = int (length (querySelectorAll doc [Sel_has ''img'' ''alt''])),
         withoutAlt = int (length (querySelectorAll doc [Sel_tag ''img'']))
                       - int (length (querySelectorAll doc [Sel_has ''img'' ''alt''])),
         missingAlt = map src_or_unknown (filter (\<lambda>img. falsy_attr (getAttribute img ''alt''))
                        (querySelectorAll doc [Sel_tag ''img''])),
         oversized = [], totalSize = 0 \<rparr>"
proof -
  obtain m ov g1 where
    f: "foldl images_step ([], [], g) (querySelectorAll doc [Sel_tag ''img'']) = (m, ov, g1)"
    by (metis prod_cases3)
  have "m = map src_or_unknown (filter (\<lambda>img. falsy_attr (getAttribute img ''alt''))
                        (querySelectorAll doc [Sel_tag ''img'']))"
    using images_loop_missing [of "[]" "[]" g "querySelectorAll doc [Sel_tag ''img'']"] f by simp
  then show ?thesis by (simp add: analyzeImages_def Let_def f split_beta)
qed

lemma withoutAlt_closed:
  "withoutAlt (fst (analyzeImages doc g))
     = int (length (querySelectorAll doc [Sel_tag ''img'']))
       - int (length (querySelectorAll doc [Sel_has ''img'' ''alt'']))"
  by (simp add: analyzeImages_def Let_def split_beta)

lemma withAlt_closed:
  "withAlt (fst (analyzeImages doc g)) = int (length (querySelectorAll doc [Sel_has ''img'' ''alt'']))"
  by (simp add: analyzeImages_def Let_def split_beta)

lemma filter_line_if:
  "filter (\<lambda>x. \<not> random_line x) (line_if b x) = (if random_line x then [] else line_if b x)"
  by (cases b) (simp_all add: line_if_def)

text \<open>
  C3, as the code has it. Two runs of \<open>parseHTML\<close> on the same document and URL, whatever
  numbers \<open>Math.random\<close> returns in each, both throw the same error or return reports that
  agree on every field but the ones that \<open>Math.random\<close> decides (\<open>images.oversized\<close>,
  \<open>images.totalSize\<close>, \<open>links.broken\<close>, \<open>performance\<close>, \<open>mobile.touchFriendly\<close>,
  \<open>security.mixedContent\<close>, \<open>accessibility.colorContrast\<close>, \<open>content.duplicateContent\<close>)
  and the scores computed from them (\<open>scores.content\<close>, \<open>scores.performance\<close>,
  \<open>scores.accessibility\<close>, \<open>score\<close>). Of the recommendations, the four whose condition
  reads such a field (duplicate content, oversized images, performance, accessibility) may
  be present in one run and absent in the other; the other recommendations are the same,
  in the same order. In particular the technical issues and the technical and social
  scores are the same.
\<close>

theorem runs_agree_outside_random_fields:
  "map_sum id without_random_fields (parseHTML P doc u g)
     = map_sum id without_random_fields (parseHTML P doc u g')"
proof (cases "links_loop P u \<lparr> n_internal = 0, n_external = 0, n_nofollow = 0, n_dofollow = 0 \<rparr>
                (querySelectorAll doc [Sel_has ''a'' ''href''])")
  case (Inl e)
  then show ?thesis by (simp add: parseHTML_def analyzeLinks_def Let_def split_beta)
next
  case (Inr c)
  then show ?thesis
    by (simp add: parseHTML_def analyzeLinks_def Let_def split_beta without_random_fields_def
          analyzeImages_stable withoutAlt_closed withAlt_closed
          analyzeContent_def analyzeMobile_def analyzeAccessibility_def analyzeSecurity_def
          calculateDetailedScores_def checkTechnicalIssues_def
          generateComprehensiveRecommendations_def filter_line_if)
qed

lemma parseHTML_performance:
  assumes "parseHTML P doc u g = Inr r"
  shows "\<exists>n. performanceScore (scores r) = max 0 (\<lfloor>tape g n * 20\<rfloor> + 80)"
proof -
  obtain t d hs im "is" c l m a s g' where g': "tape g' = tape g"
    and sc: "scores r = fst (calculateDetailedScores t d hs im is c l m a s g')"
    using parseHTML_scores [OF assms] by blast
  have "performanceScore (scores r) = max 0 (\<lfloor>tape g (pos g') * 20\<rfloor> + 80)"
    by (simp add: sc calculateDetailedScores_def Let_def split_beta Math_random_def g')
  then show ?thesis by blast
qed

text \<open>
  C3 as stated fails at the empty document of \<open>https://example.com/\<close>: the performance
  score of the report is 80 when \<open>Math.random\<close> returns 0 and 90 when it returns one half,
  so two runs on the same input differ in their \<open>DetailedScores\<close>.
\<close>

theorem performance_score_follows_random:
  "map_sum id (\<lambda>r. performanceScore (scores r))
      (parseHTML demo_platform (doc_of []) ''https://example.com/'' (rng_const 0)) = Inr 80
   \<and> map_sum id (\<lambda>r. performanceScore (scores r))
      (parseHTML demo_platform (doc_of []) ''https://example.com/'' (rng_const (1/2))) = Inr 90"
proof -
  have h: "URL_hostname demo_platform ''https://example.com/'' = Some ''example.com''"
    by (simp add: demo_platform_def)
  obtain r0 where
    r0: "parseHTML demo_platform (doc_of []) ''https://example.com/'' (rng_const 0) = Inr r0"
    using parseHTML_returns [OF h] by blast
  obtain r1 where
    r1: "parseHTML demo_platform (doc_of []) ''https://example.com/'' (rng_const (1/2)) = Inr r1"
    using parseHTML_returns [OF h] by blast
  have "performanceScore (scores r0) = 80"
    using parseHTML_performance [OF r0] by (auto simp: rng_const_def)
  moreover have "performanceScore (scores r1) = 90"
    using parseHTML_performance [OF r1] by (auto simp: rng_const_def)
  ultimately show ?thesis by (simp add: r0 r1)
qed

section \<open>Keywords\<close>

subsection \<open>The order of the keys\<close>

lemma first_seen_snoc:
  "first_seen (ws @ [w]) = (if w \<in> set (first_seen ws) then first_seen ws else first_seen ws @ [w])"
  by (simp add: first_seen_def)

lemma set_first_seen [simp]: "set (first_seen ws) = set ws"
  by (induction ws rule: rev_induct) (auto simp: first_seen_snoc, simp add: first_seen_def)

lemma distinct_first_seen [simp]: "distinct (first_seen ws)"
  by (induction ws rule: rev_induct) (auto simp: first_seen_snoc, simp add: first_seen_def)

lemma set_insert_asc [simp]: "set (insert_asc k ks) = insert k (set ks)"
  by (induction ks) auto

lemma distinct_insert_asc: "distinct ks \<Longrightarrow> k \<notin> set ks \<Longrightarrow> distinct (insert_asc k ks)"
  by (induction ks) auto

lemma sorted_insert_asc:
  "sorted (map index_value ks) \<Longrightarrow> sorted (map index_value (insert_asc k ks))"
  by (induction ks) auto

lemma index_order_snoc: "index_order (ks @ [k]) = insert_asc k (index_order ks)"
  by (simp add: index_order_def)

lemma set_index_order [simp]: "set (index_order ks) = set ks"
  by (induction ks rule: rev_induct) (simp add: index_order_def, simp add: index_order_snoc)

lemma distinct_index_order: "distinct ks \<Longrightarrow> distinct (index_order ks)"
  by (induction ks rule: rev_induct)
     (simp add: index_order_def, simp add: index_order_snoc distinct_insert_asc)

lemma sorted_index_order: "sorted (map index_value (index_order ks))"
  by (induction ks rule: rev_induct)
     (simp add: index_order_def, simp add: index_order_snoc sorted_insert_asc)

lemma set_enum_keys [simp]: "set (enum_keys ws) = set ws"
  by (auto simp: enum_keys_def)

lemma distinct_enum_keys: "distinct (enum_keys ws)"
  by (auto simp: enum_keys_def distinct_index_order)

lemma enum_keys_snoc:
  "enum_keys (ws @ [w]) =
     (if w \<in> set ws then enum_keys ws
      else if is_array_index w
           then insert_asc w (index_order (first_seen (filter is_array_index ws)))
                @ first_seen (filter (\<lambda>w. \<not> is_array_index w) ws)
           else enum_keys ws @ [w])"
  by (auto simp: enum_keys_def first_seen_snoc index_order_snoc)

lemma insert_index_map:
  assumes "\<forall>k' \<in> set I. is_array_index k'" "\<forall>k' \<in> set R. \<not> is_array_index k'"
    and "k \<notin> set I" "k \<notin> set R"
  shows "insert_index k v (map (\<lambda>k'. (k', f k')) (I @ R))
         = map (\<lambda>k'. (k', if k' = k then v else f k')) (insert_asc k I @ R)"
  using assms
proof (induction I)
  case Nil
  then show ?case by (cases R) auto
next
  case (Cons i I)
  then show ?case by auto
qed

lemma map_of_keys:
  "map_of (map (\<lambda>k. (k, f k)) ks) w = (if w \<in> set ks then Some (f w) else None)"
  by (induction ks) auto

lemma count_list_snoc: "count_list (ws @ [w]) k = count_list ws k + (if k = w then 1 else 0)"
  by (induction ws) auto

lemma count_list_0: "w \<notin> set ws \<Longrightarrow> count_list ws w = 0"
  by (induction ws) auto

lemma wordCount_entries:
  "foldl count_word [] ws = map (\<lambda>k. (k, count_list ws k)) (enum_keys ws)"
proof (induction ws rule: rev_induct)
  case Nil
  show ?case by (simp add: enum_keys_def first_seen_def index_order_def)
next
  case (snoc w ws)
  let ?I = "index_order (first_seen (filter is_array_index ws))"
  let ?R = "first_seen (filter (\<lambda>w. \<not> is_array_index w) ws)"
  let ?O = "map (\<lambda>k. (k, count_list ws k)) (enum_keys ws)"
  have step: "foldl count_word [] (ws @ [w]) = count_word ?O w" using snoc.IH by simp
  have look: "map_of ?O w = (if w \<in> set ws then Some (count_list ws w) else None)"
    by (simp add: map_of_keys)
  show ?case
  proof (cases "w \<in> set ws")
    case True
    have "count_word ?O w = map (\<lambda>k. (k, count_list (ws @ [w]) k)) (enum_keys ws)"
      using True by (auto simp: count_word_def obj_set_def look count_list_snoc)
    then show ?thesis using True step by (simp add: enum_keys_snoc)
  next
    case False
    note new = False
    show ?thesis
    proof (cases "is_array_index w")
      case True
      have "count_word ?O w = insert_index w 1 ?O"
        using new True by (simp add: count_word_def obj_set_def look)
      also have "\<dots> = insert_index w 1 (map (\<lambda>k. (k, count_list ws k)) (?I @ ?R))"
        by (simp add: enum_keys_def)
      also have "\<dots> = map (\<lambda>k'. (k', if k' = w then 1 else count_list ws k')) (insert_asc w ?I @ ?R)"
        using new by (intro insert_index_map) auto
      also have "\<dots> = map (\<lambda>k. (k, count_list (ws @ [w]) k)) (insert_asc w ?I @ ?R)"
        using new by (auto simp: count_list_snoc count_list_0)
      finally show ?thesis using new True step by (simp add: enum_keys_snoc)
    next
      case False
      have "count_word ?O w = ?O @ [(w, 1)]"
        using new False by (simp add: count_word_def obj_set_def look)
      also have "\<dots> = map (\<lambda>k. (k, count_list (ws @ [w]) k)) (enum_keys ws @ [w])"
        using new by (auto simp: count_list_snoc count_list_0)
      finally show ?thesis using new False step by (simp add: enum_keys_snoc)
    qed
  qed
qed

lemma insert_index_last:
  "\<forall>k' \<in> set I. is_array_index k' \<and> index_value k' \<le> index_value k \<Longrightarrow>
   insert_index k v (map (\<lambda>k'. (k', f k')) I) = map (\<lambda>k'. (k', f k')) I @ [(k, v)]"
  by (induction I) auto

lemma fill_index_keys:
  assumes "\<forall>k \<in> set I. is_array_index k" "sorted (map index_value I)" "distinct I"
  shows "foldl (\<lambda>d e. obj_set d (fst e) (f (snd e))) [] (map (\<lambda>k. (k, c k)) I)
         = map (\<lambda>k. (k, f (c k))) I"
  using assms
proof (induction I rule: rev_induct)
  case Nil
  show ?case by simp
next
  case (snoc k I)
  have le: "\<forall>k' \<in> set I. is_array_index k' \<and> index_value k' \<le> index_value k"
    using snoc.prems by (auto simp: sorted_append)
  have IH: "foldl (\<lambda>d e. obj_set d (fst e) (f (snd e))) [] (map (\<lambda>k. (k, c k)) I)
         = map (\<lambda>k. (k, f (c k))) I"
    using snoc by (auto simp: sorted_append)
  have "k \<notin> set I" "is_array_index k" using snoc.prems by simp_all
  then have "obj_set (map (\<lambda>k. (k, f (c k))) I) k (f (c k)) = map (\<lambda>k. (k, f (c k))) I @ [(k, f (c k))]"
    using insert_index_last [OF le, of "f (c k)" "\<lambda>k. f (c k)"] by (simp add: obj_set_def map_of_keys)
  then show ?case by (simp add: IH)
qed

lemma fill_other_keys:
  assumes "\<forall>k \<in> set R. \<not> is_array_index k" "distinct (I @ R)"
  shows "foldl (\<lambda>d e. obj_set d (fst e) (f (snd e))) (map (\<lambda>k. (k, f (c k))) I) (map (\<lambda>k. (k, c k)) R)
         = map (\<lambda>k. (k, f (c k))) (I @ R)"
  using assms
proof (induction R rule: rev_induct)
  case Nil
  show ?case by simp
next
  case (snoc k R)
  have IH: "foldl (\<lambda>d e. obj_set d (fst e) (f (snd e))) (map (\<lambda>k. (k, f (c k))) I) (map (\<lambda>k. (k, c k)) R)
         = map (\<lambda>k. (k, f (c k))) (I @ R)"
    using snoc by auto
  have "k \<notin> set (I @ R)" "\<not> is_array_index k" using snoc.prems by auto
  then have "obj_set (map (\<lambda>k. (k, f (c k))) (I @ R)) k (f (c k))
        = map (\<lambda>k. (k, f (c k))) (I @ R) @ [(k, f (c k))]"
    by (simp add: obj_set_def map_of_keys del: set_append map_append)
  then show ?case by (simp add: IH)
qed

lemma density_step_alt:
  "density_step n = (\<lambda>d e. obj_set d (fst e) ((real (snd e) / real n) * 100))"
  by (intro ext) (simp add: density_step_def split_beta)

lemma density_entries:
  "foldl (density_step n) [] (map (\<lambda>k. (k, c k)) (enum_keys ws))
     = map (\<lambda>k. (k, (real (c k) / real n) * 100)) (enum_keys ws)"
proof -
  let ?I = "index_order (first_seen (filter is_array_index ws))"
  let ?R = "first_seen (filter (\<lambda>w. \<not> is_array_index w) ws)"
  let ?f = "\<lambda>x. (real x / real n) * 100"
  let ?step = "\<lambda>d e. obj_set d (fst e) (?f (snd e))"
  have I: "foldl ?step [] (map (\<lambda>k. (k, c k)) ?I) = map (\<lambda>k. (k, ?f (c k))) ?I"
    by (rule fill_index_keys) (auto simp: sorted_index_order distinct_index_order)
  have "distinct (?I @ ?R)" using distinct_enum_keys [of ws] by (simp add: enum_keys_def)
  then have R: "foldl ?step (map (\<lambda>k. (k, ?f (c k))) ?I) (map (\<lambda>k. (k, c k)) ?R)
         = map (\<lambda>k. (k, ?f (c k))) (?I @ ?R)"
    by (intro fill_other_keys) auto
  have "foldl ?step [] (map (\<lambda>k. (k, c k)) (?I @ ?R)) = map (\<lambda>k. (k, ?f (c k))) (?I @ ?R)"
    unfolding map_append foldl_append I using R unfolding map_append .
  then show ?thesis unfolding enum_keys_def density_step_alt .
qed

lemma analyzeKeywords_enum: "analyzeKeywords text = enum_keywords text"
  by (simp add: analyzeKeywords_def enum_keywords_def ranked_keywords_def Let_def
        wordCount_entries density_entries)

subsection \<open>Tokens of a prefix of the text\<close>

lemma split_runs_nonempty: "split_runs sep b cur xs \<noteq> []"
  by (induction xs arbitrary: b cur) auto

lemma split_runs_extends:
  "b \<longrightarrow> cur = [] \<Longrightarrow> \<exists>w' \<in> set (split_runs sep b cur xs). length cur \<le> length w'"
proof (induction xs arbitrary: b cur)
  case Nil
  show ?case by simp
next
  case (Cons c cs)
  show ?case
  proof (cases "sep c")
    case True
    then show ?thesis using Cons.prems split_runs_nonempty [of sep True "[]" cs]
      by (cases "split_runs sep True [] cs") auto
  next
    case False
    obtain w' where w': "w' \<in> set (split_runs sep False (cur @ [c]) cs)"
      and "length (cur @ [c]) \<le> length w'"
      using Cons.IH [of False "cur @ [c]"] by auto
    then have "length cur \<le> length w'" by simp
    then show ?thesis using False w' by auto
  qed
qed

lemma split_runs_take:
  "b \<longrightarrow> cur = [] \<Longrightarrow> w \<in> set (split_runs sep b cur (take m xs)) \<Longrightarrow>
   \<exists>w' \<in> set (split_runs sep b cur xs). length w \<le> length w'"
proof (induction xs arbitrary: b cur m)
  case Nil
  then show ?case by auto
next
  case (Cons c cs)
  show ?case
  proof (cases m)
    case 0
    then have "w = cur" using Cons.prems by simp
    then show ?thesis using split_runs_extends [OF Cons.prems(1), of sep "c # cs"] by simp
  next
    case (Suc k)
    show ?thesis
    proof (cases "sep c")
      case True
      show ?thesis
      proof (cases b)
        case True
        with \<open>sep c\<close> Suc Cons.prems have "w \<in> set (split_runs sep True [] (take k cs))" by simp
        then show ?thesis using Cons.IH [of True "[]" k] True \<open>sep c\<close> by simp
      next
        case False
        with \<open>sep c\<close> Suc Cons.prems
        have "w = cur \<or> w \<in> set (split_runs sep True [] (take k cs))" by simp
        then show ?thesis using Cons.IH [of True "[]" k] False \<open>sep c\<close> by auto
      qed
    next
      case False
      with Suc Cons.prems have "w \<in> set (split_runs sep False (cur @ [c]) (take k cs))" by simp
      then show ?thesis using Cons.IH [of False "cur @ [c]" k] False by simp
    qed
  qed
qed

lemma filter_take: "\<exists>m. filter p (take n xs) = take m (filter p xs)"
proof (induction xs arbitrary: n)
  case Nil
  show ?case by simp
next
  case (Cons x xs)
  show ?case
  proof (cases n)
    case 0
    then show ?thesis by (intro exI [of _ 0]) simp
  next
    case (Suc k)
    obtain m where m: "filter p (take k xs) = take m (filter p xs)" using Cons.IH by blast
    show ?thesis
    proof (cases "p x")
      case True
      then show ?thesis using Suc m by (intro exI [of _ "Suc m"]) simp
    next
      case False
      then show ?thesis using Suc m by (intro exI [of _ m]) simp
    qed
  qed
qed

lemma keyword_words_alt:
  "keyword_words text = filter (\<lambda>word. length word > 3) (stripped_tokens (take 5000 text))"
  by (simp add: keyword_words_def stripped_tokens_def Let_def)

lemma stripped_tokens_take:
  assumes "w \<in> set (stripped_tokens (take n text))"
  shows "\<exists>w' \<in> set (stripped_tokens text). length w \<le> length w'"
proof -
  obtain m where m: "filter (\<lambda>c. is_word_char c \<or> is_space c) (toLowerCase (take n text))
      = take m (filter (\<lambda>c. is_word_char c \<or> is_space c) (toLowerCase text))"
    using filter_take [of "\<lambda>c. is_word_char c \<or> is_space c" n "toLowerCase text"]
    by (auto simp: toLowerCase_def take_map)
  show ?thesis
    using assms split_runs_take [of False "[]" w is_space m
        "filter (\<lambda>c. is_word_char c \<or> is_space c) (toLowerCase text)"]
    by (simp add: stripped_tokens_def split_ws_def m)
qed

lemma no_long_token_no_words:
  assumes "list_all (\<lambda>w. length w \<le> 3) (stripped_tokens text)"
  shows "keyword_words text = []"
proof -
  have "\<not> 3 < length w" if w: "w \<in> set (stripped_tokens (take 5000 text))" for w
  proof -
    obtain w' where "w' \<in> set (stripped_tokens text)" "length w \<le> length w'"
      using stripped_tokens_take [OF w] by blast
    then show ?thesis using assms by (auto simp: list_all_iff)
  qed
  then show ?thesis by (simp add: keyword_words_alt filter_empty_conv)
qed

lemma analyzeKeywords_no_words:
  "keyword_words text = [] \<Longrightarrow>
   analyzeKeywords text = \<lparr> density = [], suggestions = [], primary = [], secondary = [] \<rparr>"
  by (simp add: analyzeKeywords_def Let_def)

lemma wordCount_needs_words:
  "list_all (\<lambda>e. length ws \<noteq> 0) (foldl count_word [] ws)"
  by (simp add: wordCount_entries list_all_iff)

text \<open>
  C10. For a body text with no token longer than 3 characters after lower-casing and
  stripping of punctuation, the empty text among them, the keyword analysis returns an
  empty density map and empty lists; and for every text, whenever the count table has an
  entry, so that a density is computed by a division, the divisor \<open>totalWords\<close> is not 0.
  The function of the model is total, as the code is.
\<close>

theorem no_long_token_gives_empty_analysis:
  "(list_all (\<lambda>w. length w \<le> 3) (stripped_tokens text) \<longrightarrow>
      analyzeKeywords text = \<lparr> density = [], suggestions = [], primary = [], secondary = [] \<rparr>)
   \<and> analyzeKeywords [] = \<lparr> density = [], suggestions = [], primary = [], secondary = [] \<rparr>
   \<and> list_all (\<lambda>entry. length (keyword_words text) \<noteq> 0)
        (foldl count_word [] (keyword_words text))"
proof (intro conjI impI)
  assume "list_all (\<lambda>w. length w \<le> 3) (stripped_tokens text)"
  then show "analyzeKeywords text = \<lparr> density = [], suggestions = [], primary = [], secondary = [] \<rparr>"
    by (simp add: no_long_token_no_words analyzeKeywords_no_words)
next
  have "keyword_words [] = []"
    by (simp add: keyword_words_def toLowerCase_def split_ws_def)
  then show "analyzeKeywords [] = \<lparr> density = [], suggestions = [], primary = [], secondary = [] \<rparr>"
    by (rule analyzeKeywords_no_words)
next
  show "list_all (\<lambda>entry. length (keyword_words text) \<noteq> 0)
        (foldl count_word [] (keyword_words text))"
    by (rule wordCount_needs_words)
qed

text \<open>The statement above at the text \<open>SEO: do it!\<close>, whose tokens are seo, do and it.\<close>

theorem no_long_token_gives_empty_analysis_witness:
  "list_all (\<lambda>w. length w \<le> 3) (stripped_tokens ''SEO: do it!'')
   \<and> analyzeKeywords ''SEO: do it!'' = \<lparr> density = [], suggestions = [], primary = [], secondary = [] \<rparr>"
proof -
  have t: "stripped_tokens ''SEO: do it!'' = [''seo'', ''do'', ''it'']"
    by (simp add: stripped_tokens_def toLowerCase_def is_upper_def is_word_char_def is_space_def split_ws_def)
  have h: "list_all (\<lambda>w. length w \<le> 3) (stripped_tokens ''SEO: do it!'')"
    by (simp add: t)
  show ?thesis using no_long_token_gives_empty_analysis [of "''SEO: do it!''"] h by blast
qed

text \<open>
  C7, as the code has it. For a body text that has neither \<open>constructor\<close> nor \<open>__proto__\<close>
  among its tokens, the keyword analysis is the pipeline of the specification with the ties
  of the sort kept in the order in which JavaScript enumerates the keys of the count
  table: first the tokens that are array indices (decimal numerals such as 2024) in
  ascending numeric order, then the other tokens in first-seen order.
\<close>

theorem keywords_by_enumeration_order:
  assumes "''constructor'' \<notin> set (keyword_words text)" and "''__proto__'' \<notin> set (keyword_words text)"
  shows "analyzeKeywords text = enum_keywords text"
  by (rule analyzeKeywords_enum)

lemma kw_tips: "keyword_words ''SEO tips: seo Tips 2024 guide'' = [''tips'', ''tips'', ''2024'', ''guide'']"
  by (simp add: keyword_words_def toLowerCase_def is_upper_def is_word_char_def is_space_def split_ws_def)

text \<open>
  The statement above at the text \<open>SEO tips: seo Tips 2024 guide\<close>: the key 2024 is
  enumerated first, and stays before guide, which has the same density.
\<close>

theorem keywords_by_enumeration_order_witness:
  "''constructor'' \<notin> set (keyword_words ''SEO tips: seo Tips 2024 guide'')
   \<and> ''__proto__'' \<notin> set (keyword_words ''SEO tips: seo Tips 2024 guide'')
   \<and> analyzeKeywords ''SEO tips: seo Tips 2024 guide''
      = \<lparr> density = [(''2024'', 25), (''tips'', 50), (''guide'', 25)],
          suggestions = [''tips'', ''2024'', ''guide''],
          primary = [''tips'', ''2024'', ''guide''],
          secondary = [] \<rparr>"
proof -
  have a: "''constructor'' \<notin> set (keyword_words ''SEO tips: seo Tips 2024 guide'')"
    and b: "''__proto__'' \<notin> set (keyword_words ''SEO tips: seo Tips 2024 guide'')"
    by (simp_all add: kw_tips)
  have idx: "is_array_index ''2024''" "\<not> is_array_index ''tips''" "\<not> is_array_index ''guide''"
    by (simp_all add: is_array_index_def is_digit_def index_value_def digit_val_def)
  have e: "enum_keywords ''SEO tips: seo Tips 2024 guide''
      = \<lparr> density = [(''2024'', 25), (''tips'', 50), (''guide'', 25)],
          suggestions = [''tips'', ''2024'', ''guide''],
          primary = [''tips'', ''2024'', ''guide''],
          secondary = [] \<rparr>"
    by (simp add: enum_keywords_def ranked_keywords_def kw_tips enum_keys_def idx first_seen_def
          index_order_def Let_def)
  show ?thesis using keywords_by_enumeration_order [OF a b] a b e by simp
qed

lemma kw_hello: "keyword_words ''hello 2024'' = [''hello'', ''2024'']"
  by (simp add: keyword_words_def toLowerCase_def is_upper_def is_word_char_def is_space_def split_ws_def)

lemma idx_2024: "is_array_index ''2024''" "\<not> is_array_index ''hello''"
  by (simp_all add: is_array_index_def is_digit_def index_value_def digit_val_def)

text \<open>
  C7 as stated fails at the text \<open>hello 2024\<close>: both tokens have the density 50, hello is
  seen first, and the code ranks 2024 first.
\<close>

theorem numeric_token_ranks_first:
  "suggestions (analyzeKeywords ''hello 2024'') = [''2024'', ''hello'']
   \<and> suggestions (spec_keywords ''hello 2024'') = [''hello'', ''2024'']"
  by (simp add: analyzeKeywords_def kw_hello Let_def count_word_def obj_set_def idx_2024 density_step_def
      spec_keywords_def ranked_keywords_def first_seen_def)

end
